theory Spec2Isabelle
  imports Main "HOL-Library.Sublist"
begin

text \<open>
  The two notebooks are Python scripts run cell by cell. The values they compute on
  locally are the values \<^verbatim>\<open>json.load\<close> returns: \<^verbatim>\<open>None\<close>, booleans, integers, strings,
  lists and dictionaries. Numbers with a fractional part are outside this model. A
  dictionary is the association list of its items in insertion order; the keys of a
  loaded dictionary are distinct. Strings are byte lists (UTF-8); the only needle searched
  for is ASCII, for which searching bytes and searching code points agree.
\<close>

datatype json =
    JNull
  | JBool bool
  | JInt int
  | JStr string
  | JArr "json list"
  | JObj "(string \<times> json) list"

text \<open>
  The exceptions of the model: the ones Python raises by itself on the local operations of
  the notebooks, and \<open>SdkError\<close>, whatever an external call raises.
\<close>

datatype exn =
    KeyError string
  | TypeError
  | NameError string
  | AttributeError
  | SdkError string

text \<open>Python's \<^verbatim>\<open>==\<close> on loaded values: \<^verbatim>\<open>True == 1\<close> and \<^verbatim>\<open>False == 0\<close> hold, lists
  compare element by element, dictionaries by their items whatever the order.\<close>

fun py_eq :: "json \<Rightarrow> json \<Rightarrow> bool" where
  "py_eq JNull JNull = True"
| "py_eq (JBool a) (JBool b) = (a = b)"
| "py_eq (JBool a) (JInt n) = ((if a then 1 else 0) = n)"
| "py_eq (JInt n) (JBool a) = (n = (if a then 1 else 0))"
| "py_eq (JInt m) (JInt n) = (m = n)"
| "py_eq (JStr s) (JStr t) = (s = t)"
| "py_eq (JArr xs) (JArr ys) = list_all2 py_eq xs ys"
| "py_eq (JObj a) (JObj b) =
     (length a = length b \<and>
      list_all (\<lambda>kv. case map_of b (fst kv) of None \<Rightarrow> False | Some w \<Rightarrow> py_eq (snd kv) w) a)"
| "py_eq _ _ = False"

text \<open>\<^verbatim>\<open>x in xs\<close> for a list \<open>xs\<close>.\<close>

definition py_in_list :: "json \<Rightarrow> json list \<Rightarrow> bool" where
  "py_in_list x xs = list_ex (\<lambda>e. py_eq e x) xs"

text \<open>\<^verbatim>\<open>needle in haystack\<close> for two strings: the needle starts at some position.\<close>

fun str_contains :: "string \<Rightarrow> string \<Rightarrow> bool" where
  "str_contains needle [] = (needle = [])"
| "str_contains needle (c # cs) = (prefix needle (c # cs) \<or> str_contains needle cs)"

text \<open>\<^verbatim>\<open>model[key]\<close> for a string key.\<close>

definition py_getitem :: "json \<Rightarrow> string \<Rightarrow> exn + json" where
  "py_getitem model key =
     (case model of
        JObj kvs \<Rightarrow> (case map_of kvs key of None \<Rightarrow> Inl (KeyError key) | Some v \<Rightarrow> Inr v)
      | _ \<Rightarrow> Inl TypeError)"

text \<open>\<^verbatim>\<open>s in v\<close> for a string \<open>s\<close>: substring of a string, element of a list, key of a
  dictionary; the other values are not containers.\<close>

definition py_str_in :: "string \<Rightarrow> json \<Rightarrow> exn + bool" where
  "py_str_in s v =
     (case v of
        JStr t \<Rightarrow> Inr (str_contains s t)
      | JArr xs \<Rightarrow> Inr (py_in_list (JStr s) xs)
      | JObj kvs \<Rightarrow> Inr (List.member (map fst kvs) s)
      | _ \<Rightarrow> Inl TypeError)"

text \<open>\<^verbatim>\<open>for model in v\<close>: the elements of a list, the keys of a dictionary, the characters
  of a string.\<close>

definition py_iter :: "json \<Rightarrow> exn + json list" where
  "py_iter v =
     (case v of
        JArr xs \<Rightarrow> Inr xs
      | JObj kvs \<Rightarrow> Inr (map (\<lambda>kv. JStr (fst kv)) kvs)
      | JStr s \<Rightarrow> Inr (map (\<lambda>c. JStr [c]) s)
      | _ \<Rightarrow> Inl TypeError)"

text \<open>
  \<^verbatim>\<open>model_id = "tensorflow-tc-bert-en-uncased-L-12-H-768-A-12-2"\<close>
\<close>

definition model_id :: string where
  "model_id = ''tensorflow-tc-bert-en-uncased-L-12-H-768-A-12-2''"

text \<open>
  \<^verbatim>\<open>[model["model_id"] for model in model_list if "-tc-" in model["model_id"]]\<close>

  The comprehension evaluates the condition of each element in turn and raises at the
  first element whose subscript or membership test raises.
\<close>

fun tc_comprehension :: "json list \<Rightarrow> exn + json list" where
  "tc_comprehension [] = Inr []"
| "tc_comprehension (model # rest) =
     (case py_getitem model ''model_id'' of
        Inl e \<Rightarrow> Inl e
      | Inr v \<Rightarrow>
          (case py_str_in ''-tc-'' v of
             Inl e \<Rightarrow> Inl e
           | Inr b \<Rightarrow>
               (case tc_comprehension rest of
                  Inl e \<Rightarrow> Inl e
                | Inr acc \<Rightarrow> Inr (if b then v # acc else acc))))"

definition tc_models_all_versions :: "json \<Rightarrow> exn + json list" where
  "tc_models_all_versions model_list =
     (case py_iter model_list of Inl e \<Rightarrow> Inl e | Inr ms \<Rightarrow> tc_comprehension ms)"

text \<open>
  \<^verbatim>\<open>[tc_models.append(model) for model in tc_models_all_versions if model not in tc_models]\<close>

  \<open>tc_models\<close> starts empty and grows while the comprehension runs: the first argument
  is the list built so far.
\<close>

fun tc_models_from :: "json list \<Rightarrow> json list \<Rightarrow> json list" where
  "tc_models_from acc [] = acc"
| "tc_models_from acc (model # rest) =
     tc_models_from (if \<not> py_in_list model acc then acc @ [model] else acc) rest"

definition tc_models :: "json list \<Rightarrow> json list" where
  "tc_models all_versions = tc_models_from [] all_versions"

text \<open>
  A manifest entry that is a record carrying a \<^verbatim>\<open>model_id\<close> string, and the string it
  carries.
\<close>

fun model_id_of :: "json \<Rightarrow> string option" where
  "model_id_of (JObj kvs) =
     (case map_of kvs ''model_id'' of Some (JStr s) \<Rightarrow> Some s | _ \<Rightarrow> None)"
| "model_id_of _ = None"

text \<open>The elements of a list at their first occurrence, given the values seen before.\<close>

fun keep_first :: "'a set \<Rightarrow> 'a list \<Rightarrow> 'a list" where
  "keep_first seen [] = []"
| "keep_first seen (x # xs) =
     (if x \<in> seen then keep_first seen xs else x # keep_first (insert x seen) xs)"

section \<open>Configuration records, external calls and the kernel\<close>

text \<open>
  \<^verbatim>\<open>hyperparameters = {'epoch': 5,\<close>

  \<^verbatim>\<open>                   'batch_size': 64,\<close>

  \<^verbatim>\<open>                   'data_augmentation': True}\<close>

  A dictionary literal is the association list of its items, in the order written.
\<close>

definition hyperparameters :: "(string \<times> json) list" where
  "hyperparameters = [(''epoch'', JInt 5), (''batch_size'', JInt 64), (''data_augmentation'', JBool True)]"

text \<open>
  \<^verbatim>\<open>distributions = {\<close>

  \<^verbatim>\<open>                    "mpi": {\<close>

  \<^verbatim>\<open>                        "enabled": True,\<close>

  \<^verbatim>\<open>                        "processes_per_host": 4,\<close>

  \<^verbatim>\<open>                        "custom_mpi_options": "-verbose -x HOROVOD_TIMELINE=./hvd_timeline.json -x NCCL_DEBUG=INFO -x OMPI_MCA_btl_vader_single_copy_mechanism=none",\<close>

  \<^verbatim>\<open>                    }\<close>

  \<^verbatim>\<open>                }\<close>
\<close>

definition distributions :: "(string \<times> json) list" where
  "distributions =
     [(''mpi'', JObj [(''enabled'', JBool True),
                      (''processes_per_host'', JInt 4),
                      (''custom_mpi_options'',
                       JStr ''-verbose -x HOROVOD_TIMELINE=./hvd_timeline.json -x NCCL_DEBUG=INFO -x OMPI_MCA_btl_vader_single_copy_mechanism=none'')])]"

text \<open>
  \<^verbatim>\<open>rules=[\<close>

  \<^verbatim>\<open>    Rule.sagemaker(rule_configs.loss_not_decreasing()),\<close>

  \<^verbatim>\<open>    ProfilerRule.sagemaker(rule_configs.LowGPUUtilization()),\<close>

  \<^verbatim>\<open>    ProfilerRule.sagemaker(rule_configs.ProfilerReport()),\<close>

  \<^verbatim>\<open>]\<close>

  The rule configurations and the two rule constructors belong to the library: a rule is
  the term that names the constructor and the configuration it was built from.
\<close>

datatype rule_config = loss_not_decreasing | LowGPUUtilization | ProfilerReport

datatype rule = Rule_sagemaker rule_config | ProfilerRule_sagemaker rule_config

definition rules :: "rule list" where
  "rules = [Rule_sagemaker loss_not_decreasing,
            ProfilerRule_sagemaker LowGPUUtilization,
            ProfilerRule_sagemaker ProfilerReport]"

text \<open>
  \<^verbatim>\<open>profiler_config = ProfilerConfig(\<close>

  \<^verbatim>\<open>    system_monitor_interval_millis=500,\<close>

  \<^verbatim>\<open>    framework_profile_params=FrameworkProfile(num_steps=10)\<close>

  \<^verbatim>\<open>)\<close>

  The two constructors belong to the library; a record holds the keyword arguments of the
  call, \<open>None\<close> for an argument that is not passed. \<open>FrameworkProfile_num_steps\<close> is the
  call \<^verbatim>\<open>FrameworkProfile(num_steps=n)\<close>.
\<close>

record framework_profile =
  start_step :: "int option"
  num_steps :: "int option"

record profiler_config_args =
  system_monitor_interval_millis :: "int option"
  framework_profile_params :: "framework_profile option"

definition FrameworkProfile_num_steps :: "int \<Rightarrow> framework_profile" where
  "FrameworkProfile_num_steps n = \<lparr>start_step = None, num_steps = Some n\<rparr>"

definition profiler_config :: profiler_config_args where
  "profiler_config =
     \<lparr>system_monitor_interval_millis = Some 500,
      framework_profile_params = Some (FrameworkProfile_num_steps 10)\<rparr>"

text \<open>
  The steps a framework profile captures when it is given a first step and a number of
  steps, as the text of the notebook describes it (\<open>from step 5 to step 15\<close>): this
  function is not part of the notebook, it reads the record.
\<close>

definition step_range :: "framework_profile \<Rightarrow> (int \<times> int) option" where
  "step_range fp =
     (case (start_step fp, num_steps fp) of
        (Some s, Some n) \<Rightarrow> Some (s, s + n)
      | _ \<Rightarrow> None)"

text \<open>
  The objects of the library (sessions, clients, open files, widgets, estimators,
  predictors, training jobs, chart views) are opaque: the notebooks only pass them back to
  the library. They are handles.
\<close>

type_synonym handle = nat

text \<open>
  The two attributes the notebook reads from \<^verbatim>\<open>estimator.latest_training_job\<close>:
  \<^verbatim>\<open>.name\<close> and \<^verbatim>\<open>.job_name\<close>.
\<close>

record training_job =
  name :: string
  job_name :: string

text \<open>
  The keyword arguments of the calls \<^verbatim>\<open>Dropdown(...)\<close>, \<^verbatim>\<open>estimator.fit(...)\<close>,
  \<^verbatim>\<open>TensorFlow(...)\<close> and \<^verbatim>\<open>TimelineCharts(...)\<close>. An argument of \<^verbatim>\<open>fit\<close> that a call
  does not pass is \<open>None\<close>.
\<close>

record dropdown_args =
  dd_value :: json
  dd_options :: "json list"
  dd_description :: string
  dd_style :: "(string \<times> string) list"
  dd_layout :: "(string \<times> string) list"

record fit_args =
  fit_inputs :: "(string \<times> string) list option"
  fit_wait :: "bool option"
  fit_logs :: "bool option"

record tf_args =
  tf_role :: string
  tf_instance_count :: int
  tf_instance_type :: string
  tf_entry_point :: string
  tf_source_dir :: string
  tf_framework_version :: string
  tf_py_version :: string
  tf_profiler_config :: profiler_config_args
  tf_hyperparameters :: "(string \<times> json) list"
  tf_distribution :: "(string \<times> json) list"
  tf_rules :: "rule list"

record charts_args =
  ch_system_metrics_reader :: handle
  ch_framework_metrics_reader :: "handle option"
  ch_select_dimensions :: "string list"
  ch_select_events :: "string list"

text \<open>
  What a run does to the outside, in the order it does it: one event for each call of the
  library with the arguments of the call, for each attribute read on an object of the
  library, for each line printed or object displayed. \<open>Raised msg\<close> follows the event of
  a call that raised.
\<close>

datatype event =
    Shell string
  | GetExecutionRole
  | Boto3Session
  | RegionName handle
  | SagemakerSession
  | Boto3Client string
  | DownloadFile handle string string string
  | OpenFile string string
  | JsonLoad handle
  | CloseFile handle
  | DropdownCtor dropdown_args
  | DisplayMarkdown string
  | DisplayWidget handle
  | DropdownValue handle
  | GetJumpstartContentBucket
  | JumpStartEstimatorCtor json "(string \<times> string) list"
  | Fit handle fit_args
  | Deploy handle
  | Predict handle string
  | Print string
  | PrintValue json
  | DeletePredictor handle
  | TensorFlowCtor tf_args
  | LatestTrainingJob handle
  | OutputPath handle
  | TrainingJobCtor string "string option"
  | WaitForSysProfilingData handle
  | RefreshEventFileList handle
  | TimelineChartsCtor charts_args
  | Raised string

text \<open>
  The library and the platform behind it are parameters of the model. A call is a
  function of the state of the world that either raises (\<open>Inl\<close>, with the message) or
  returns a value (\<open>Inr\<close>), and leaves a new state of the world. The shell command
  \<^verbatim>\<open>!pip install\<close> and the closing of a file only change the world. Reading an attribute
  (\<^verbatim>\<open>.region_name\<close>, \<^verbatim>\<open>.value\<close>, \<^verbatim>\<open>.latest_training_job\<close>, \<^verbatim>\<open>.output_path\<close>) changes
  nothing and does not raise; \<^verbatim>\<open>region_name\<close>, \<^verbatim>\<open>latest_training_job\<close> and
  \<^verbatim>\<open>output_path\<close> may be \<^verbatim>\<open>None\<close>. The \<^verbatim>\<open>import\<close> statements, \<^verbatim>\<open>print\<close> and \<^verbatim>\<open>display\<close>
  are taken to succeed.
\<close>

record 'w sdk =
  sdk_shell :: "string \<Rightarrow> 'w \<Rightarrow> 'w"
  sdk_get_execution_role :: "'w \<Rightarrow> (string + string) \<times> 'w"
  sdk_boto3_Session :: "'w \<Rightarrow> (string + handle) \<times> 'w"
  sdk_region_name :: "handle \<Rightarrow> 'w \<Rightarrow> string option"
  sdk_sagemaker_Session :: "'w \<Rightarrow> (string + handle) \<times> 'w"
  sdk_boto3_client :: "string \<Rightarrow> 'w \<Rightarrow> (string + handle) \<times> 'w"
  sdk_download_file :: "handle \<Rightarrow> string \<Rightarrow> string \<Rightarrow> string \<Rightarrow> 'w \<Rightarrow> (string + unit) \<times> 'w"
  sdk_open :: "string \<Rightarrow> string \<Rightarrow> 'w \<Rightarrow> (string + handle) \<times> 'w"
  sdk_json_load :: "handle \<Rightarrow> 'w \<Rightarrow> (string + json) \<times> 'w"
  sdk_close :: "handle \<Rightarrow> 'w \<Rightarrow> 'w"
  sdk_Dropdown :: "dropdown_args \<Rightarrow> 'w \<Rightarrow> (string + handle) \<times> 'w"
  sdk_dropdown_value :: "handle \<Rightarrow> 'w \<Rightarrow> json"
  sdk_get_jumpstart_content_bucket :: "'w \<Rightarrow> (string + string) \<times> 'w"
  sdk_JumpStartEstimator :: "json \<Rightarrow> (string \<times> string) list \<Rightarrow> 'w \<Rightarrow> (string + handle) \<times> 'w"
  sdk_fit :: "handle \<Rightarrow> fit_args \<Rightarrow> 'w \<Rightarrow> (string + unit) \<times> 'w"
  sdk_deploy :: "handle \<Rightarrow> 'w \<Rightarrow> (string + handle) \<times> 'w"
  sdk_predict :: "handle \<Rightarrow> string \<Rightarrow> 'w \<Rightarrow> (string + json) \<times> 'w"
  sdk_delete_predictor :: "handle \<Rightarrow> 'w \<Rightarrow> (string + unit) \<times> 'w"
  sdk_TensorFlow :: "tf_args \<Rightarrow> 'w \<Rightarrow> (string + handle) \<times> 'w"
  sdk_latest_training_job :: "handle \<Rightarrow> 'w \<Rightarrow> training_job option"
  sdk_output_path :: "handle \<Rightarrow> 'w \<Rightarrow> string option"
  sdk_TrainingJob :: "string \<Rightarrow> string option \<Rightarrow> 'w \<Rightarrow> (string + handle) \<times> 'w"
  sdk_wait_for_sys_profiling_data_to_be_available :: "handle \<Rightarrow> 'w \<Rightarrow> (string + unit) \<times> 'w"
  sdk_refresh_event_file_list :: "handle \<Rightarrow> 'w \<Rightarrow> (string + unit) \<times> 'w"
  sdk_TimelineCharts :: "charts_args \<Rightarrow> 'w \<Rightarrow> (string + handle) \<times> 'w"

text \<open>
  The state of a run: the variables of the notebook (each one unbound or bound), the state
  of the world, and the events so far. A variable holds the value it was bound to, and
  what the notebook itself does to that value afterwards (\<^verbatim>\<open>tc_models.append\<close>). A mutable
  object that has been handed to the library (the dictionary bound to
  \<^verbatim>\<open>hyperparameters\<close>, passed to \<^verbatim>\<open>TensorFlow\<close>) is shared with it from then on, and a later
  call may change it in place: after the hand-off the content of such an object belongs to
  the world, and the variable of the model only says what the name was bound to.
\<close>

record ('g, 'w) kernel =
  globals :: 'g
  world :: 'w
  trace :: "event list"

text \<open>
  A statement or an expression maps the state to an exception or a value, and the new
  state. \<open>seq\<close> runs its second part only if the first one did not raise.
\<close>

type_synonym ('g, 'w, 'a) py = "('g, 'w) kernel \<Rightarrow> (exn + 'a) \<times> ('g, 'w) kernel"

definition ret :: "'a \<Rightarrow> ('g, 'w, 'a) py" where
  "ret x = (\<lambda>k. (Inr x, k))"

definition raise :: "exn \<Rightarrow> ('g, 'w, 'a) py" where
  "raise e = (\<lambda>k. (Inl e, k))"

definition seq :: "('g, 'w, 'a) py \<Rightarrow> ('a \<Rightarrow> ('g, 'w, 'b) py) \<Rightarrow> ('g, 'w, 'b) py" where
  "seq m f = (\<lambda>k. case m k of (Inl e, k') \<Rightarrow> (Inl e, k') | (Inr x, k') \<Rightarrow> f x k')"

text \<open>
  \<open>call\<close> is a call of the library: the event is recorded, the world changes as the
  call says, and what the call raises is raised as \<open>SdkError\<close>, with the marker
  \<open>Raised\<close> after the event. Nothing is caught and nothing is called again.
\<close>

definition log :: "event \<Rightarrow> ('g, 'w) kernel \<Rightarrow> ('g, 'w) kernel" where
  "log ev k = trace_update (\<lambda>t. t @ [ev]) k"

definition call :: "event \<Rightarrow> ('w \<Rightarrow> (string + 'a) \<times> 'w) \<Rightarrow> ('g, 'w, 'a) py" where
  "call ev f =
     (\<lambda>k. case f (world k) of
        (Inl msg, w') \<Rightarrow> (Inl (SdkError msg), log (Raised msg) (log ev (world_update (\<lambda>_. w') k)))
      | (Inr x, w') \<Rightarrow> (Inr x, log ev (world_update (\<lambda>_. w') k)))"

definition effect :: "event \<Rightarrow> ('w \<Rightarrow> 'w) \<Rightarrow> ('g, 'w, unit) py" where
  "effect ev f = (\<lambda>k. (Inr (), log ev (world_update f k)))"

definition attr :: "event \<Rightarrow> ('w \<Rightarrow> 'a) \<Rightarrow> ('g, 'w, 'a) py" where
  "attr ev f = (\<lambda>k. (Inr (f (world k)), log ev k))"

definition emit :: "event \<Rightarrow> ('g, 'w, unit) py" where
  "emit ev = (\<lambda>k. (Inr (), log ev k))"

text \<open>
  Reading a variable raises \<^verbatim>\<open>NameError\<close> when the variable is unbound.
\<close>

definition name :: "string \<Rightarrow> ('g \<Rightarrow> 'a option) \<Rightarrow> ('g, 'w, 'a) py" where
  "name x field = (\<lambda>k. case field (globals k) of None \<Rightarrow> (Inl (NameError x), k) | Some v \<Rightarrow> (Inr v, k))"

definition assign :: "('g \<Rightarrow> 'g) \<Rightarrow> ('g, 'w, unit) py" where
  "assign upd = (\<lambda>k. (Inr (), globals_update upd k))"

text \<open>
  \<^verbatim>\<open>with ... as f: body\<close>: the exit part runs whether or not the body raised, and then
  the outcome of the body stands.
\<close>

definition with_exit :: "('g, 'w, 'a) py \<Rightarrow> ('g, 'w, unit) py \<Rightarrow> ('g, 'w, 'a) py" where
  "with_exit m fin =
     (\<lambda>k. case m k of (r, k') \<Rightarrow>
        (case fin k' of (Inl e, k'') \<Rightarrow> (Inl e, k'') | (Inr _, k'') \<Rightarrow> (r, k'')))"

text \<open>
  The statements of a cell, or the cells of a notebook, from top to bottom: the first
  exception ends the run.
\<close>

fun run :: "('g, 'w, unit) py list \<Rightarrow> ('g, 'w, unit) py" where
  "run [] = ret ()"
| "run (c # cs) = seq c (\<lambda>_. run cs)"

section \<open>The JumpStart notebook, cell by cell\<close>

text \<open>
  \<^verbatim>\<open>f"{v}"\<close> for a value that is a string or \<^verbatim>\<open>None\<close>.
\<close>

definition py_format :: "string option \<Rightarrow> string" where
  "py_format v = (case v of None \<Rightarrow> ''None'' | Some s \<Rightarrow> s)"

text \<open>
  The variables of the notebook. \<^verbatim>\<open>model_id\<close> is first a string and then whatever
  \<^verbatim>\<open>dropdown.value\<close> holds; \<^verbatim>\<open>aws_region\<close> may be \<^verbatim>\<open>None\<close>.
\<close>

record js_globals =
  js_aws_role :: "string option"
  js_aws_region :: "string option option"
  js_sess :: "handle option"
  js_model_id :: "json option"
  js_json_file :: "handle option"
  js_model_list :: "json option"
  js_tc_models_all_versions :: "json list option"
  js_tc_models :: "json list option"
  js_dropdown :: "handle option"
  js_training_data_bucket :: "string option"
  js_training_data_prefix :: "string option"
  js_training_dataset_s3_path :: "string option"
  js_estimator :: "handle option"
  js_predictor :: "handle option"
  js_text1 :: "string option"
  js_text2 :: "string option"
  js_text :: "string option"
  js_query_response :: "json option"

definition js_empty :: js_globals where
  "js_empty =
     \<lparr>js_aws_role = None, js_aws_region = None, js_sess = None, js_model_id = None,
      js_json_file = None, js_model_list = None, js_tc_models_all_versions = None,
      js_tc_models = None, js_dropdown = None, js_training_data_bucket = None,
      js_training_data_prefix = None, js_training_dataset_s3_path = None,
      js_estimator = None, js_predictor = None, js_text1 = None, js_text2 = None,
      js_text = None, js_query_response = None\<rparr>"

text \<open>
  \<^verbatim>\<open>!pip install sagemaker ipywidgets --upgrade --quiet\<close>
\<close>

definition js_cell_pip :: "'w sdk \<Rightarrow> (js_globals, 'w, unit) py" where
  "js_cell_pip sdk =
     effect (Shell ''pip install sagemaker ipywidgets --upgrade --quiet'')
       (sdk_shell sdk ''pip install sagemaker ipywidgets --upgrade --quiet'')"

text \<open>
  \<^verbatim>\<open>aws_role = get_execution_role()\<close>

  \<^verbatim>\<open>aws_region = boto3.Session().region_name\<close>

  \<^verbatim>\<open>sess = sagemaker.Session()\<close>
\<close>

definition js_cell_setup :: "'w sdk \<Rightarrow> (js_globals, 'w, unit) py" where
  "js_cell_setup sdk = run
     [seq (call GetExecutionRole (sdk_get_execution_role sdk))
        (\<lambda>r. assign (js_aws_role_update (\<lambda>_. Some r))),
      seq (call Boto3Session (sdk_boto3_Session sdk))
        (\<lambda>s. seq (attr (RegionName s) (sdk_region_name sdk s))
          (\<lambda>r. assign (js_aws_region_update (\<lambda>_. Some r)))),
      seq (call SagemakerSession (sdk_sagemaker_Session sdk))
        (\<lambda>s. assign (js_sess_update (\<lambda>_. Some s)))]"

text \<open>
  \<^verbatim>\<open>model_id = "tensorflow-tc-bert-en-uncased-L-12-H-768-A-12-2"\<close>
\<close>

definition js_cell_model_id :: "'w sdk \<Rightarrow> (js_globals, 'w, unit) py" where
  "js_cell_model_id sdk = assign (js_model_id_update (\<lambda>_. Some (JStr model_id)))"

text \<open>
  \<^verbatim>\<open>boto3.client("s3").download_file(\<close>

  \<^verbatim>\<open>    f"jumpstart-cache-prod-{aws_region}", "models_manifest.json", "models_manifest.json"\<close>

  \<^verbatim>\<open>)\<close>

  \<^verbatim>\<open>with open("models_manifest.json", "rb") as json_file:\<close>

  \<^verbatim>\<open>    model_list = json.load(json_file)\<close>

  \<^verbatim>\<open>tc_models_all_versions, tc_models = [\<close>

  \<^verbatim>\<open>    model["model_id"] for model in model_list if "-tc-" in model["model_id"]\<close>

  \<^verbatim>\<open>], []\<close>

  \<^verbatim>\<open>[tc_models.append(model) for model in tc_models_all_versions if model not in tc_models]\<close>

  \<^verbatim>\<open>dropdown = Dropdown(\<close>

  \<^verbatim>\<open>    value=model_id,\<close>

  \<^verbatim>\<open>    options=tc_models,\<close>

  \<^verbatim>\<open>    description="JumpStart Text Classification Models:",\<close>

  \<^verbatim>\<open>    style={"description_width": "initial"},\<close>

  \<^verbatim>\<open>    layout={"width": "max-content"},\<close>

  \<^verbatim>\<open>)\<close>

  \<^verbatim>\<open>display(IPython.display.Markdown("## Select a JumpStart pre-trained model from the dropdown below"))\<close>

  \<^verbatim>\<open>display(dropdown)\<close>

  The client is created before the bucket name is formatted. The tuple on the right of
  the assignment is evaluated before either variable is bound. The second comprehension
  appends to the list \<^verbatim>\<open>tc_models\<close> is bound to.
\<close>

definition js_cell_select :: "'w sdk \<Rightarrow> (js_globals, 'w, unit) py" where
  "js_cell_select sdk = run
     [seq (call (Boto3Client ''s3'') (sdk_boto3_client sdk ''s3''))
        (\<lambda>c. seq (name ''aws_region'' js_aws_region)
          (\<lambda>region. call
             (DownloadFile c (''jumpstart-cache-prod-'' @ py_format region)
                ''models_manifest.json'' ''models_manifest.json'')
             (sdk_download_file sdk c (''jumpstart-cache-prod-'' @ py_format region)
                ''models_manifest.json'' ''models_manifest.json''))),
      seq (call (OpenFile ''models_manifest.json'' ''rb'') (sdk_open sdk ''models_manifest.json'' ''rb''))
        (\<lambda>f. with_exit
           (run
             [assign (js_json_file_update (\<lambda>_. Some f)),
              seq (name ''json_file'' js_json_file)
                (\<lambda>jf. seq (call (JsonLoad jf) (sdk_json_load sdk jf))
                  (\<lambda>ml. assign (js_model_list_update (\<lambda>_. Some ml))))])
           (effect (CloseFile f) (sdk_close sdk f))),
      seq (name ''model_list'' js_model_list)
        (\<lambda>ml. case tc_models_all_versions ml of
           Inl e \<Rightarrow> raise e
         | Inr av \<Rightarrow> seq (assign (js_tc_models_all_versions_update (\<lambda>_. Some av)))
                      (\<lambda>_. assign (js_tc_models_update (\<lambda>_. Some [])))),
      seq (name ''tc_models_all_versions'' js_tc_models_all_versions)
        (\<lambda>av. seq (name ''tc_models'' js_tc_models)
          (\<lambda>tm. assign (js_tc_models_update (\<lambda>_. Some (tc_models_from tm av))))),
      seq (name ''model_id'' js_model_id)
        (\<lambda>mid. seq (name ''tc_models'' js_tc_models)
          (\<lambda>tm. seq (call
                (DropdownCtor \<lparr>dd_value = mid, dd_options = tm,
                   dd_description = ''JumpStart Text Classification Models:'',
                   dd_style = [(''description_width'', ''initial'')],
                   dd_layout = [(''width'', ''max-content'')]\<rparr>)
                (sdk_Dropdown sdk \<lparr>dd_value = mid, dd_options = tm,
                   dd_description = ''JumpStart Text Classification Models:'',
                   dd_style = [(''description_width'', ''initial'')],
                   dd_layout = [(''width'', ''max-content'')]\<rparr>))
            (\<lambda>d. assign (js_dropdown_update (\<lambda>_. Some d))))),
      emit (DisplayMarkdown ''## Select a JumpStart pre-trained model from the dropdown below''),
      seq (name ''dropdown'' js_dropdown) (\<lambda>d. emit (DisplayWidget d))]"

text \<open>
  \<^verbatim>\<open>model_id = dropdown.value\<close>
\<close>

definition js_cell_dropdown_value :: "'w sdk \<Rightarrow> (js_globals, 'w, unit) py" where
  "js_cell_dropdown_value sdk =
     seq (name ''dropdown'' js_dropdown)
       (\<lambda>d. seq (attr (DropdownValue d) (sdk_dropdown_value sdk d))
         (\<lambda>v. assign (js_model_id_update (\<lambda>_. Some v))))"

text \<open>
  \<^verbatim>\<open>training_data_bucket = get_jumpstart_content_bucket()\<close>

  \<^verbatim>\<open>training_data_prefix = "training-datasets/SST/"\<close>

  \<^verbatim>\<open>training_dataset_s3_path = f"s3://{training_data_bucket}/{training_data_prefix}"\<close>
\<close>

definition js_cell_data :: "'w sdk \<Rightarrow> (js_globals, 'w, unit) py" where
  "js_cell_data sdk = run
     [seq (call GetJumpstartContentBucket (sdk_get_jumpstart_content_bucket sdk))
        (\<lambda>b. assign (js_training_data_bucket_update (\<lambda>_. Some b))),
      assign (js_training_data_prefix_update (\<lambda>_. Some ''training-datasets/SST/'')),
      seq (name ''training_data_bucket'' js_training_data_bucket)
        (\<lambda>b. seq (name ''training_data_prefix'' js_training_data_prefix)
          (\<lambda>p. assign (js_training_dataset_s3_path_update (\<lambda>_. Some (''s3://'' @ b @ ''/'' @ p)))))]"

text \<open>
  \<^verbatim>\<open>estimator = JumpStartEstimator(\<close>

  \<^verbatim>\<open>    model_id=model_id,\<close>

  \<^verbatim>\<open>    hyperparameters={"epochs": "1", "batch_size": "64"},\<close>

  \<^verbatim>\<open>)\<close>
\<close>

definition js_cell_estimator :: "'w sdk \<Rightarrow> (js_globals, 'w, unit) py" where
  "js_cell_estimator sdk =
     seq (name ''model_id'' js_model_id)
       (\<lambda>mid. seq (call
             (JumpStartEstimatorCtor mid [(''epochs'', ''1''), (''batch_size'', ''64'')])
             (sdk_JumpStartEstimator sdk mid [(''epochs'', ''1''), (''batch_size'', ''64'')]))
         (\<lambda>e. assign (js_estimator_update (\<lambda>_. Some e))))"

text \<open>
  \<^verbatim>\<open>estimator.fit({"training": training_dataset_s3_path}, logs=True)\<close>
\<close>

definition js_cell_fit :: "'w sdk \<Rightarrow> (js_globals, 'w, unit) py" where
  "js_cell_fit sdk =
     seq (name ''estimator'' js_estimator)
       (\<lambda>e. seq (name ''training_dataset_s3_path'' js_training_dataset_s3_path)
         (\<lambda>p. call
            (Fit e \<lparr>fit_inputs = Some [(''training'', p)], fit_wait = None, fit_logs = Some True\<rparr>)
            (sdk_fit sdk e \<lparr>fit_inputs = Some [(''training'', p)], fit_wait = None, fit_logs = Some True\<rparr>)))"

text \<open>
  \<^verbatim>\<open>predictor = estimator.deploy()\<close>
\<close>

definition js_cell_deploy :: "'w sdk \<Rightarrow> (js_globals, 'w, unit) py" where
  "js_cell_deploy sdk =
     seq (name ''estimator'' js_estimator)
       (\<lambda>e. seq (call (Deploy e) (sdk_deploy sdk e))
         (\<lambda>p. assign (js_predictor_update (\<lambda>_. Some p))))"

text \<open>
  \<^verbatim>\<open>text1 = "astonishing ... ( frames ) profound ethical and philosophical questions in the form of dazzling pop entertainment"\<close>

  \<^verbatim>\<open>text2 = "simply stupid , irrelevant and deeply , truly , bottomlessly cynical "\<close>
\<close>

definition text1 :: string where
  "text1 = ''astonishing ... ( frames ) profound ethical and philosophical questions in the form of dazzling pop entertainment''"

definition text2 :: string where
  "text2 = ''simply stupid , irrelevant and deeply , truly , bottomlessly cynical ''"

definition js_cell_texts :: "'w sdk \<Rightarrow> (js_globals, 'w, unit) py" where
  "js_cell_texts sdk = run
     [assign (js_text1_update (\<lambda>_. Some text1)),
      assign (js_text2_update (\<lambda>_. Some text2))]"

text \<open>
  \<^verbatim>\<open>for text in [text1, text2]:\<close>

  \<^verbatim>\<open>    query_response = predictor.predict(text)\<close>

  \<^verbatim>\<open>    print(query_response)\<close>

  \<open>predict_loop\<close> is the loop over the list, \<open>js_cell_predict\<close> builds the list first.
\<close>

fun predict_loop :: "'w sdk \<Rightarrow> string list \<Rightarrow> (js_globals, 'w, unit) py" where
  "predict_loop sdk [] = ret ()"
| "predict_loop sdk (t # ts) = run
     [assign (js_text_update (\<lambda>_. Some t)),
      seq (name ''predictor'' js_predictor)
        (\<lambda>p. seq (name ''text'' js_text)
          (\<lambda>x. seq (call (Predict p x) (sdk_predict sdk p x))
            (\<lambda>r. assign (js_query_response_update (\<lambda>_. Some r))))),
      seq (name ''query_response'' js_query_response) (\<lambda>r. emit (PrintValue r)),
      predict_loop sdk ts]"

definition js_cell_predict :: "'w sdk \<Rightarrow> (js_globals, 'w, unit) py" where
  "js_cell_predict sdk =
     seq (name ''text1'' js_text1)
       (\<lambda>a. seq (name ''text2'' js_text2)
         (\<lambda>b. predict_loop sdk [a, b]))"

text \<open>
  \<^verbatim>\<open>predictor.delete_predictor()\<close>
\<close>

definition js_cell_delete :: "'w sdk \<Rightarrow> (js_globals, 'w, unit) py" where
  "js_cell_delete sdk =
     seq (name ''predictor'' js_predictor)
       (\<lambda>p. call (DeletePredictor p) (sdk_delete_predictor sdk p))"

text \<open>
  The code cells in the order of the notebook, and a run of all of them from a state
  where no variable is bound.
\<close>

definition jumpstart_cells :: "'w sdk \<Rightarrow> (js_globals, 'w, unit) py list" where
  "jumpstart_cells sdk =
     [js_cell_pip sdk, js_cell_setup sdk, js_cell_model_id sdk, js_cell_select sdk,
      js_cell_dropdown_value sdk, js_cell_data sdk, js_cell_estimator sdk, js_cell_fit sdk,
      js_cell_deploy sdk, js_cell_texts sdk, js_cell_predict sdk, js_cell_delete sdk]"

definition fresh :: "'g \<Rightarrow> 'w \<Rightarrow> ('g, 'w) kernel" where
  "fresh g w = \<lparr>globals = g, world = w, trace = []\<rparr>"

definition jumpstart_notebook :: "'w sdk \<Rightarrow> 'w \<Rightarrow> (exn + unit) \<times> (js_globals, 'w) kernel" where
  "jumpstart_notebook sdk w = run (jumpstart_cells sdk) (fresh js_empty w)"

section \<open>The profiling notebook, cell by cell\<close>

text \<open>
  The variables of the notebook. \<^verbatim>\<open>system_metrics_reader\<close> is read by the timeline cell and
  bound by no cell.
\<close>

record pf_globals =
  pf_hyperparameters :: "(string \<times> json) list option"
  pf_distributions :: "(string \<times> json) list option"
  pf_rules :: "rule list option"
  pf_profiler_config :: "profiler_config_args option"
  pf_estimator :: "handle option"
  pf_session :: "handle option"
  pf_region :: "string option option"
  pf_training_job_name :: "string option"
  pf_tj :: "handle option"
  pf_system_metrics_reader :: "handle option"
  pf_view_timeline_charts :: "handle option"
  pf_rule_output_path :: "string option"

definition pf_empty :: pf_globals where
  "pf_empty =
     \<lparr>pf_hyperparameters = None, pf_distributions = None, pf_rules = None,
      pf_profiler_config = None, pf_estimator = None, pf_session = None, pf_region = None,
      pf_training_job_name = None, pf_tj = None, pf_system_metrics_reader = None,
      pf_view_timeline_charts = None, pf_rule_output_path = None\<rparr>"

text \<open>
  The first four cells bind the hyperparameters, the distribution descriptor, the rules and
  the profiler configuration.
\<close>

definition pf_cell_hyperparameters :: "'w sdk \<Rightarrow> (pf_globals, 'w, unit) py" where
  "pf_cell_hyperparameters sdk = assign (pf_hyperparameters_update (\<lambda>_. Some hyperparameters))"

definition pf_cell_distributions :: "'w sdk \<Rightarrow> (pf_globals, 'w, unit) py" where
  "pf_cell_distributions sdk = assign (pf_distributions_update (\<lambda>_. Some distributions))"

definition pf_cell_rules :: "'w sdk \<Rightarrow> (pf_globals, 'w, unit) py" where
  "pf_cell_rules sdk = assign (pf_rules_update (\<lambda>_. Some rules))"

definition pf_cell_profiler_config :: "'w sdk \<Rightarrow> (pf_globals, 'w, unit) py" where
  "pf_cell_profiler_config sdk = assign (pf_profiler_config_update (\<lambda>_. Some profiler_config))"

text \<open>
  \<^verbatim>\<open>estimator = TensorFlow(\<close>

  \<^verbatim>\<open>    role=sagemaker.get_execution_role(),\<close>

  \<^verbatim>\<open>    instance_count=2,\<close>

  \<^verbatim>\<open>    instance_type='ml.p3.8xlarge',\<close>

  \<^verbatim>\<open>    entry_point='tf-hvd-train.py',\<close>

  \<^verbatim>\<open>    source_dir='entry_point',\<close>

  \<^verbatim>\<open>    framework_version='2.3.1',\<close>

  \<^verbatim>\<open>    py_version='py37',\<close>

  \<^verbatim>\<open>    profiler_config=profiler_config,\<close>

  \<^verbatim>\<open>    hyperparameters=hyperparameters,\<close>

  \<^verbatim>\<open>    distribution=distributions,\<close>

  \<^verbatim>\<open>    rules=rules\<close>

  \<^verbatim>\<open>)\<close>

  The arguments are evaluated in the order written: the role lookup first, then the four
  variables.
\<close>

definition tensorflow_args ::
  "string \<Rightarrow> profiler_config_args \<Rightarrow> (string \<times> json) list \<Rightarrow> (string \<times> json) list \<Rightarrow>
     rule list \<Rightarrow> tf_args" where
  "tensorflow_args role pc hp dist rs =
     \<lparr>tf_role = role, tf_instance_count = 2, tf_instance_type = ''ml.p3.8xlarge'',
      tf_entry_point = ''tf-hvd-train.py'', tf_source_dir = ''entry_point'',
      tf_framework_version = ''2.3.1'', tf_py_version = ''py37'',
      tf_profiler_config = pc, tf_hyperparameters = hp, tf_distribution = dist,
      tf_rules = rs\<rparr>"

definition pf_cell_estimator :: "'w sdk \<Rightarrow> (pf_globals, 'w, unit) py" where
  "pf_cell_estimator sdk =
     seq (call GetExecutionRole (sdk_get_execution_role sdk))
       (\<lambda>role. seq (name ''profiler_config'' pf_profiler_config)
         (\<lambda>pc. seq (name ''hyperparameters'' pf_hyperparameters)
           (\<lambda>hp. seq (name ''distributions'' pf_distributions)
             (\<lambda>dist. seq (name ''rules'' pf_rules)
               (\<lambda>rs. seq (call (TensorFlowCtor (tensorflow_args role pc hp dist rs))
                          (sdk_TensorFlow sdk (tensorflow_args role pc hp dist rs)))
                 (\<lambda>e. assign (pf_estimator_update (\<lambda>_. Some e))))))))"

text \<open>
  \<^verbatim>\<open>estimator.fit(wait=False)\<close>
\<close>

definition fit_wait_False :: fit_args where
  "fit_wait_False = \<lparr>fit_inputs = None, fit_wait = Some False, fit_logs = None\<rparr>"

definition pf_cell_fit :: "'w sdk \<Rightarrow> (pf_globals, 'w, unit) py" where
  "pf_cell_fit sdk =
     seq (name ''estimator'' pf_estimator)
       (\<lambda>e. call (Fit e fit_wait_False) (sdk_fit sdk e fit_wait_False))"

text \<open>
  \<^verbatim>\<open>session = boto3.session.Session()\<close>

  \<^verbatim>\<open>region = session.region_name\<close>

  \<^verbatim>\<open>training_job_name = estimator.latest_training_job.name\<close>

  \<^verbatim>\<open>print(f"Training jobname: {training_job_name}")\<close>

  \<^verbatim>\<open>print(f"Region: {region}")\<close>

  Reading \<^verbatim>\<open>.name\<close> on \<^verbatim>\<open>None\<close> raises \<^verbatim>\<open>AttributeError\<close>.
\<close>

definition pf_cell_job :: "'w sdk \<Rightarrow> (pf_globals, 'w, unit) py" where
  "pf_cell_job sdk = run
     [seq (call Boto3Session (sdk_boto3_Session sdk))
        (\<lambda>s. assign (pf_session_update (\<lambda>_. Some s))),
      seq (name ''session'' pf_session)
        (\<lambda>s. seq (attr (RegionName s) (sdk_region_name sdk s))
          (\<lambda>r. assign (pf_region_update (\<lambda>_. Some r)))),
      seq (name ''estimator'' pf_estimator)
        (\<lambda>e. seq (attr (LatestTrainingJob e) (sdk_latest_training_job sdk e))
          (\<lambda>j. case j of
             None \<Rightarrow> raise AttributeError
           | Some tj \<Rightarrow> assign (pf_training_job_name_update (\<lambda>_. Some (training_job.name tj))))),
      seq (name ''training_job_name'' pf_training_job_name)
        (\<lambda>n. emit (Print (''Training jobname: '' @ n))),
      seq (name ''region'' pf_region)
        (\<lambda>r. emit (Print (''Region: '' @ py_format r)))]"

text \<open>
  \<^verbatim>\<open>tj = TrainingJob(training_job_name, region)\<close>

  \<^verbatim>\<open>tj.wait_for_sys_profiling_data_to_be_available()\<close>
\<close>

definition pf_cell_wait :: "'w sdk \<Rightarrow> (pf_globals, 'w, unit) py" where
  "pf_cell_wait sdk = run
     [seq (name ''training_job_name'' pf_training_job_name)
        (\<lambda>n. seq (name ''region'' pf_region)
          (\<lambda>r. seq (call (TrainingJobCtor n r) (sdk_TrainingJob sdk n r))
            (\<lambda>t. assign (pf_tj_update (\<lambda>_. Some t))))),
      seq (name ''tj'' pf_tj)
        (\<lambda>t. call (WaitForSysProfilingData t)
               (sdk_wait_for_sys_profiling_data_to_be_available sdk t))]"

text \<open>
  \<^verbatim>\<open>system_metrics_reader.refresh_event_file_list()\<close>

  \<^verbatim>\<open>view_timeline_charts  = TimelineCharts(system_metrics_reader,\<close>

  \<^verbatim>\<open>                                       framework_metrics_reader=None,\<close>

  \<^verbatim>\<open>                                       select_dimensions=["CPU", "GPU"],\<close>

  \<^verbatim>\<open>                                       select_events=["total"])\<close>
\<close>

definition timeline_charts_args :: "handle \<Rightarrow> charts_args" where
  "timeline_charts_args r =
     \<lparr>ch_system_metrics_reader = r, ch_framework_metrics_reader = None,
      ch_select_dimensions = [''CPU'', ''GPU''], ch_select_events = [''total'']\<rparr>"

definition pf_cell_charts :: "'w sdk \<Rightarrow> (pf_globals, 'w, unit) py" where
  "pf_cell_charts sdk = run
     [seq (name ''system_metrics_reader'' pf_system_metrics_reader)
        (\<lambda>r. call (RefreshEventFileList r) (sdk_refresh_event_file_list sdk r)),
      seq (name ''system_metrics_reader'' pf_system_metrics_reader)
        (\<lambda>r. seq (call (TimelineChartsCtor (timeline_charts_args r))
                   (sdk_TimelineCharts sdk (timeline_charts_args r)))
          (\<lambda>c. assign (pf_view_timeline_charts_update (\<lambda>_. Some c))))]"

text \<open>
  \<^verbatim>\<open>rule_output_path = estimator.output_path + estimator.latest_training_job.job_name + "/rule-output"\<close>

  \<^verbatim>\<open>print(f"You will find the profiler report in {rule_output_path}")\<close>

  Both attributes are read before the first \<^verbatim>\<open>+\<close>: \<^verbatim>\<open>.job_name\<close> on \<^verbatim>\<open>None\<close> raises
  \<^verbatim>\<open>AttributeError\<close>, then \<^verbatim>\<open>None + str\<close> raises \<^verbatim>\<open>TypeError\<close>.
\<close>

definition rule_output_path :: "string option \<Rightarrow> training_job option \<Rightarrow> exn + string" where
  "rule_output_path out_path latest =
     (case latest of
        None \<Rightarrow> Inl AttributeError
      | Some tj \<Rightarrow>
          (case out_path of
             None \<Rightarrow> Inl TypeError
           | Some p \<Rightarrow> Inr ((p @ job_name tj) @ ''/rule-output'')))"

definition pf_cell_rule_output :: "'w sdk \<Rightarrow> (pf_globals, 'w, unit) py" where
  "pf_cell_rule_output sdk = run
     [seq (name ''estimator'' pf_estimator)
        (\<lambda>e. seq (attr (OutputPath e) (sdk_output_path sdk e))
          (\<lambda>p. seq (name ''estimator'' pf_estimator)
            (\<lambda>e'. seq (attr (LatestTrainingJob e') (sdk_latest_training_job sdk e'))
              (\<lambda>j. case rule_output_path p j of
                 Inl err \<Rightarrow> raise err
               | Inr path \<Rightarrow> assign (pf_rule_output_path_update (\<lambda>_. Some path)))))),
      seq (name ''rule_output_path'' pf_rule_output_path)
        (\<lambda>p. emit (Print (''You will find the profiler report in '' @ p)))]"

text \<open>
  The last code cell is empty.
\<close>

definition pf_cell_empty :: "'w sdk \<Rightarrow> (pf_globals, 'w, unit) py" where
  "pf_cell_empty sdk = ret ()"

definition profiling_cells :: "'w sdk \<Rightarrow> (pf_globals, 'w, unit) py list" where
  "profiling_cells sdk =
     [pf_cell_hyperparameters sdk, pf_cell_distributions sdk, pf_cell_rules sdk,
      pf_cell_profiler_config sdk, pf_cell_estimator sdk, pf_cell_fit sdk, pf_cell_job sdk,
      pf_cell_wait sdk, pf_cell_charts sdk, pf_cell_rule_output sdk, pf_cell_empty sdk]"

definition profiling_notebook :: "'w sdk \<Rightarrow> 'w \<Rightarrow> (exn + unit) \<times> (pf_globals, 'w) kernel" where
  "profiling_notebook sdk w = run (profiling_cells sdk) (fresh pf_empty w)"

section \<open>Properties of runs\<close>

text \<open>
  The events that touch the endpoint.
\<close>

fun endpoint_event :: "event \<Rightarrow> bool" where
  "endpoint_event (Deploy e) = True"
| "endpoint_event (Predict p t) = True"
| "endpoint_event (DeletePredictor p) = True"
| "endpoint_event _ = False"

abbreviation fe :: "('g, 'w) kernel \<Rightarrow> event list" where
  "fe k \<equiv> filter endpoint_event (trace k)"

text \<open>
  \<open>emits Q m\<close>: from any state, \<open>m\<close> only adds events, and every event it adds
  satisfies \<open>Q\<close>.
\<close>

definition emits :: "(event \<Rightarrow> bool) \<Rightarrow> ('g, 'w, 'a) py \<Rightarrow> bool" where
  "emits Q m = (\<forall>k. \<exists>evs. trace (snd (m k)) = trace k @ evs \<and> list_all Q evs)"

text \<open>
  The endpoint events of a trace are a prefix of deploy, predict on the first sentence,
  predict on the second, delete, on one predictor; all four when the run ended without
  error; and a delete event is the last event, but for the marker of its own error.
\<close>

definition endpoint_order :: "exn + unit \<Rightarrow> event list \<Rightarrow> bool" where
  "endpoint_order r tr \<longleftrightarrow>
     (\<exists>e p. prefix (filter endpoint_event tr)
               [Deploy e, Predict p text1, Predict p text2, DeletePredictor p] \<and>
            (r = Inr () \<longrightarrow> filter endpoint_event tr =
               [Deploy e, Predict p text1, Predict p text2, DeletePredictor p]) \<and>
            (\<forall>q pre post. tr = pre @ DeletePredictor q # post \<longrightarrow>
               post = [] \<or> (\<exists>m. post = [Raised m])))"

text \<open>
  A world for the examples: every call succeeds, the manifest is the one given, and
  \<^verbatim>\<open>Dropdown\<close> rejects a value that is not among its options, as the widget does.
\<close>

definition sdk_ok :: "json \<Rightarrow> unit sdk" where
  "sdk_ok manifest =
     \<lparr>sdk_shell = (\<lambda>_ w. w),
      sdk_get_execution_role = (\<lambda>w. (Inr ''arn:aws:iam::1:role/demo'', w)),
      sdk_boto3_Session = (\<lambda>w. (Inr 1, w)),
      sdk_region_name = (\<lambda>_ _. Some ''us-west-2''),
      sdk_sagemaker_Session = (\<lambda>w. (Inr 2, w)),
      sdk_boto3_client = (\<lambda>_ w. (Inr 3, w)),
      sdk_download_file = (\<lambda>_ _ _ _ w. (Inr (), w)),
      sdk_open = (\<lambda>_ _ w. (Inr 4, w)),
      sdk_json_load = (\<lambda>_ w. (Inr manifest, w)),
      sdk_close = (\<lambda>_ w. w),
      sdk_Dropdown = (\<lambda>a w. if py_in_list (dd_value a) (dd_options a) then (Inr 5, w)
                               else (Inl ''TraitError: Invalid selection'', w)),
      sdk_dropdown_value = (\<lambda>_ _. JStr model_id),
      sdk_get_jumpstart_content_bucket = (\<lambda>w. (Inr ''jumpstart-cache-prod-us-west-2'', w)),
      sdk_JumpStartEstimator = (\<lambda>_ _ w. (Inr 6, w)),
      sdk_fit = (\<lambda>_ _ w. (Inr (), w)),
      sdk_deploy = (\<lambda>_ w. (Inr 7, w)),
      sdk_predict = (\<lambda>_ _ w. (Inr (JObj [(''probabilities'', JArr [])]), w)),
      sdk_delete_predictor = (\<lambda>_ w. (Inr (), w)),
      sdk_TensorFlow = (\<lambda>_ w. (Inr 8, w)),
      sdk_latest_training_job = (\<lambda>_ _. Some \<lparr>training_job.name = ''tensorflow-training-2021'', job_name = ''tensorflow-training-2021''\<rparr>),
      sdk_output_path = (\<lambda>_ _. Some ''s3://sagemaker-us-west-2-1/''),
      sdk_TrainingJob = (\<lambda>_ _ w. (Inr 9, w)),
      sdk_wait_for_sys_profiling_data_to_be_available = (\<lambda>_ w. (Inr (), w)),
      sdk_refresh_event_file_list = (\<lambda>_ w. (Inr (), w)),
      sdk_TimelineCharts = (\<lambda>_ w. (Inr 10, w))\<rparr>"

text \<open>
  A manifest that lists the default model under two versions.
\<close>

definition manifest_ok :: json where
  "manifest_ok =
     JArr [JObj [(''model_id'', JStr model_id), (''version'', JStr ''1.0.0'')],
           JObj [(''model_id'', JStr ''pytorch-ic-mobilenet-v2''), (''version'', JStr ''1.0.0'')],
           JObj [(''model_id'', JStr model_id), (''version'', JStr ''2.0.0'')]]"

text \<open>
  The events that query the job (session, region, latest training job, output path), poll
  for profiling data or build the charts from it, print, or mark a raised error.
\<close>

fun job_query_or_poll :: "event \<Rightarrow> bool" where
  "job_query_or_poll Boto3Session = True"
| "job_query_or_poll (RegionName s) = True"
| "job_query_or_poll (LatestTrainingJob e) = True"
| "job_query_or_poll (OutputPath e) = True"
| "job_query_or_poll (TrainingJobCtor n r) = True"
| "job_query_or_poll (WaitForSysProfilingData t) = True"
| "job_query_or_poll (RefreshEventFileList r) = True"
| "job_query_or_poll (TimelineChartsCtor a) = True"
| "job_query_or_poll (Print s) = True"
| "job_query_or_poll (Raised m) = True"
| "job_query_or_poll _ = False"

fun is_TensorFlowCtor :: "event \<Rightarrow> bool" where
  "is_TensorFlowCtor (TensorFlowCtor a) = True"
| "is_TensorFlowCtor _ = False"

text \<open>
  \<open>keeps field m\<close>: \<open>m\<close> leaves the variable as it found it. It is used for the cells
  that precede the hand-off to the library only.
\<close>

definition keeps :: "('g \<Rightarrow> 'b) \<Rightarrow> ('g, 'w, 'a) py \<Rightarrow> bool" where
  "keeps field m = (\<forall>k. field (globals (snd (m k))) = field (globals k))"

text \<open>
  The four configuration variables hold the values of the first four cells.
\<close>

definition configured :: "pf_globals \<Rightarrow> bool" where
  "configured g \<longleftrightarrow>
     pf_hyperparameters g = Some hyperparameters \<and> pf_distributions g = Some distributions \<and>
     pf_rules g = Some rules \<and> pf_profiler_config g = Some profiler_config"

abbreviation tf_event :: "string \<Rightarrow> event" where
  "tf_event role \<equiv>
     TensorFlowCtor (tensorflow_args role profiler_config hyperparameters distributions rules)"

text \<open>
  The traces of the profiling notebook, by what the role lookup answers: the run stops at
  the role lookup or at the constructor, or the constructor is followed by the submission
  and then by queries and polls only.
\<close>

definition pf_shape :: "string + string \<Rightarrow> event list \<Rightarrow> bool" where
  "pf_shape ro tr \<longleftrightarrow>
     (\<exists>m. ro = Inl m \<and> tr = [GetExecutionRole, Raised m]) \<or>
     (\<exists>role m. ro = Inr role \<and> tr = [GetExecutionRole, tf_event role, Raised m]) \<or>
     (\<exists>role e post. ro = Inr role \<and>
         tr = [GetExecutionRole, tf_event role] @ Fit e fit_wait_False # post \<and>
         list_all job_query_or_poll post)"

text \<open>
  \<open>propagated r evs\<close>: the result \<open>r\<close> is the error of an external call exactly when
  \<open>evs\<close> holds the marker of that error, once, with nothing after it but the closing of
  a file; any other result comes with no marker. \<open>faithful m\<close>: from any state, \<open>m\<close> only
  adds events and its result is propagated in them.
\<close>

fun is_Raised :: "event \<Rightarrow> bool" where
  "is_Raised (Raised m) = True"
| "is_Raised _ = False"

fun is_CloseFile :: "event \<Rightarrow> bool" where
  "is_CloseFile (CloseFile f) = True"
| "is_CloseFile _ = False"

fun propagated :: "exn + 'a \<Rightarrow> event list \<Rightarrow> bool" where
  "propagated (Inl (SdkError msg)) evs =
     (\<exists>pre post. evs = pre @ Raised msg # post \<and> \<not> list_ex is_Raised pre \<and>
        list_all is_CloseFile post)"
| "propagated _ evs = (\<not> list_ex is_Raised evs)"

definition faithful :: "('g, 'w, 'a) py \<Rightarrow> bool" where
  "faithful m = (\<forall>k. \<exists>evs. trace (snd (m k)) = trace k @ evs \<and> propagated (fst (m k)) evs)"

text \<open>
  \<open>passes_through c ev f store k\<close>: run from \<open>k\<close>, the cell \<open>c\<close> is the one external call
  \<open>f\<close>: the event of the call is the only one added, the world is the one the call left,
  the error of the call is the result of the cell, and the value it returns is stored
  unchanged in the variables by \<open>store\<close>.
\<close>

definition passes_through ::
  "('g, 'w, unit) py \<Rightarrow> event \<Rightarrow> ('w \<Rightarrow> (string + 'a) \<times> 'w) \<Rightarrow> ('a \<Rightarrow> 'g \<Rightarrow> 'g) \<Rightarrow>
     ('g, 'w) kernel \<Rightarrow> bool" where
  "passes_through c ev f store k =
     (case f (world k) of
        (Inl msg, w') \<Rightarrow>
          fst (c k) = Inl (SdkError msg) \<and> trace (snd (c k)) = trace k @ [ev, Raised msg] \<and>
          world (snd (c k)) = w' \<and> globals (snd (c k)) = globals k
      | (Inr x, w') \<Rightarrow>
          fst (c k) = Inr () \<and> trace (snd (c k)) = trace k @ [ev] \<and>
          world (snd (c k)) = w' \<and> globals (snd (c k)) = store x (globals k))"

text \<open>
  States and worlds for the examples: a manifest whose entry has no \<^verbatim>\<open>model_id\<close>, a world
  where \<^verbatim>\<open>fit\<close> raises, and the states before the model selection cell and before the
  endpoint cells.
\<close>

definition manifest_bad :: json where
  "manifest_bad = JArr [JObj [(''name'', JStr ''tensorflow-tc-bert-en-uncased-L-12-H-768-A-12-2'')]]"

definition sdk_fit_fails :: "unit sdk" where
  "sdk_fit_fails = (sdk_ok manifest_ok)\<lparr>sdk_fit := (\<lambda>_ _ w. (Inl ''ResourceLimitExceeded'', w))\<rparr>"

definition js_selecting :: "(js_globals, unit) kernel" where
  "js_selecting =
     fresh (js_empty\<lparr>js_aws_region := Some (Some ''us-west-2''),
                      js_model_id := Some (JStr model_id)\<rparr>) ()"

definition js_ready :: "(js_globals, unit) kernel" where
  "js_ready =
     fresh (js_empty\<lparr>js_aws_region := Some (Some ''us-west-2''),
                      js_model_id := Some (JStr model_id),
                      js_training_dataset_s3_path := Some ''s3://bucket/training-datasets/SST/'',
                      js_estimator := Some 6, js_predictor := Some 7,
                      js_text1 := Some text1, js_text2 := Some text2\<rparr>) ()"

section \<open>Filtering the manifest and removing the duplicates\<close>

lemma str_contains_iff: "str_contains n h \<longleftrightarrow> (\<exists>p q. h = p @ n @ q)"
proof (induction h)
  case Nil
  then show ?case by auto
next
  case (Cons c cs)
  show ?case
  proof
    assume "str_contains n (c # cs)"
    then consider "prefix n (c # cs)" | "str_contains n cs" by auto
    then show "\<exists>p q. c # cs = p @ n @ q"
    proof cases
      case 1
      then obtain q where "c # cs = n @ q" by (auto simp: prefix_def)
      then have "c # cs = [] @ n @ q" by simp
      then show ?thesis by blast
    next
      case 2
      with Cons.IH obtain p q where "cs = p @ n @ q" by blast
      then have "c # cs = (c # p) @ n @ q" by simp
      then show ?thesis by blast
    qed
  next
    assume "\<exists>p q. c # cs = p @ n @ q"
    then obtain p q where pq: "c # cs = p @ n @ q" by blast
    show "str_contains n (c # cs)"
    proof (cases p)
      case Nil
      with pq have "prefix n (c # cs)" by (simp add: prefix_def)
      then show ?thesis by simp
    next
      case (Cons a p')
      with pq have "cs = p' @ n @ q" by simp
      with Cons.IH have "str_contains n cs" by blast
      then show ?thesis by simp
    qed
  qed
qed

lemma model_id_of_getitem:
  "model_id_of m = Some s \<Longrightarrow> py_getitem m ''model_id'' = Inr (JStr s)"
  by (cases m) (auto simp: py_getitem_def split: option.splits json.splits)

lemma tc_comprehension_strs:
  "map model_id_of ms = map Some ids \<Longrightarrow>
   tc_comprehension ms = Inr (map JStr (filter (str_contains ''-tc-'') ids))"
proof (induction ms arbitrary: ids)
  case Nil
  then show ?case by simp
next
  case (Cons m ms)
  then obtain s ids' where ids: "ids = s # ids'" and m: "model_id_of m = Some s"
    and rest: "map model_id_of ms = map Some ids'"
    by (cases ids) auto
  from Cons.IH[OF rest] m show ?case
    by (simp add: ids model_id_of_getitem py_str_in_def)
qed

lemma tc_models_all_versions_strs:
  "map model_id_of ms = map Some ids \<Longrightarrow>
   tc_models_all_versions (JArr ms) = Inr (map JStr (filter (str_contains ''-tc-'') ids))"
  by (simp add: tc_models_all_versions_def py_iter_def tc_comprehension_strs)

text \<open>
  Claim C1. For a manifest that is a list of records each carrying a \<^verbatim>\<open>model_id\<close> string
  (\<open>ids\<close>, in manifest order), the comprehension does not raise and
  \<^verbatim>\<open>tc_models_all_versions\<close> is exactly the sublist of the ids that contain \<^verbatim>\<open>-tc-\<close>, in
  manifest order: an id is in the result if and only if it is in the manifest and
  contains \<^verbatim>\<open>-tc-\<close>.
\<close>

theorem tc_models_all_versions_filter:
  assumes "map model_id_of ms = map Some ids"
  shows "tc_models_all_versions (JArr ms) =
           Inr (map JStr (filter (\<lambda>s. \<exists>p q. s = p @ ''-tc-'' @ q) ids)) \<and>
         (\<forall>s. (\<exists>av. tc_models_all_versions (JArr ms) = Inr av \<and> JStr s \<in> set av) \<longleftrightarrow>
               (s \<in> set ids \<and> (\<exists>p q. s = p @ ''-tc-'' @ q)))"
proof -
  have eq: "str_contains ''-tc-'' = (\<lambda>s. \<exists>p q. s = p @ ''-tc-'' @ q)"
    by (rule ext) (rule str_contains_iff)
  have 1: "tc_models_all_versions (JArr ms) =
           Inr (map JStr (filter (\<lambda>s. \<exists>p q. s = p @ ''-tc-'' @ q) ids))"
    using tc_models_all_versions_strs[OF assms] by (simp add: eq)
  show ?thesis unfolding 1 by auto
qed

theorem tc_models_all_versions_filter_witness:
  "map model_id_of
     [JObj [(''model_id'', JStr ''a-tc-b''), (''version'', JStr ''1.0.0'')],
      JObj [(''model_id'', JStr ''a-ic-b'')],
      JObj [(''version'', JStr ''2.0.0''), (''model_id'', JStr ''a-tc-b'')]] =
     map Some [''a-tc-b'', ''a-ic-b'', ''a-tc-b''] \<and>
   tc_models_all_versions (JArr
     [JObj [(''model_id'', JStr ''a-tc-b''), (''version'', JStr ''1.0.0'')],
      JObj [(''model_id'', JStr ''a-ic-b'')],
      JObj [(''version'', JStr ''2.0.0''), (''model_id'', JStr ''a-tc-b'')]]) =
     Inr (map JStr (filter (\<lambda>s. \<exists>p q. s = p @ ''-tc-'' @ q) [''a-tc-b'', ''a-ic-b'', ''a-tc-b''])) \<and>
   tc_models_all_versions (JArr
     [JObj [(''model_id'', JStr ''a-tc-b''), (''version'', JStr ''1.0.0'')],
      JObj [(''model_id'', JStr ''a-ic-b'')],
      JObj [(''version'', JStr ''2.0.0''), (''model_id'', JStr ''a-tc-b'')]]) =
     Inr [JStr ''a-tc-b'', JStr ''a-tc-b'']"
proof -
  have h: "map model_id_of
     [JObj [(''model_id'', JStr ''a-tc-b''), (''version'', JStr ''1.0.0'')],
      JObj [(''model_id'', JStr ''a-ic-b'')],
      JObj [(''version'', JStr ''2.0.0''), (''model_id'', JStr ''a-tc-b'')]] =
     map Some [''a-tc-b'', ''a-ic-b'', ''a-tc-b'']"
    by simp
  have c: "tc_models_all_versions (JArr
     [JObj [(''model_id'', JStr ''a-tc-b''), (''version'', JStr ''1.0.0'')],
      JObj [(''model_id'', JStr ''a-ic-b'')],
      JObj [(''version'', JStr ''2.0.0''), (''model_id'', JStr ''a-tc-b'')]]) =
     Inr [JStr ''a-tc-b'', JStr ''a-tc-b'']"
    by (simp add: tc_models_all_versions_def py_iter_def py_getitem_def py_str_in_def)
  from tc_models_all_versions_filter[OF h] h c show ?thesis by simp
qed

lemma py_eq_JStr: "py_eq e (JStr s) \<longleftrightarrow> e = JStr s"
  by (cases e) auto

lemma py_in_list_JStr: "py_in_list (JStr s) acc \<longleftrightarrow> JStr s \<in> set acc"
  by (auto simp: py_in_list_def list_ex_iff py_eq_JStr)

lemma tc_models_from_strs:
  "tc_models_from acc (map JStr xs) = acc @ keep_first (set acc) (map JStr xs)"
  by (induction xs arbitrary: acc) (auto simp: py_in_list_JStr)

lemma set_keep_first: "set (keep_first seen xs) = set xs - seen"
  by (induction xs arbitrary: seen) auto

lemma distinct_keep_first: "distinct (keep_first seen xs)"
  by (induction xs arbitrary: seen) (auto simp: set_keep_first)

lemma keep_first_nth:
  "keep_first seen xs =
     map (\<lambda>i. xs ! i) (filter (\<lambda>i. xs ! i \<notin> seen \<union> set (take i xs)) [0..<length xs])"
proof (induction xs arbitrary: seen)
  case Nil
  then show ?case by simp
next
  case (Cons x xs)
  have upt: "[0..<length (x # xs)] = 0 # map Suc [0..<length xs]"
    by (simp add: upt_conv_Cons map_Suc_upt del: upt_Suc)
  have same: "map ((!) xs) (filter P [0..<length xs]) = map ((!) xs) (filter Q [0..<length xs])"
    if "\<And>i. P i = Q i" for P Q :: "nat \<Rightarrow> bool"
    using that by presburger
  show ?case
    unfolding upt by (auto simp: Cons.IH filter_map o_def intro!: same)
qed

lemma count_list_distinct: "distinct xs \<Longrightarrow> x \<in> set xs \<Longrightarrow> count_list xs x = 1"
  by (induction xs) auto

lemma tc_models_strs: "tc_models (map JStr xs) = keep_first {} (map JStr xs)"
  using tc_models_from_strs[of "[]" xs] by (simp add: tc_models_def)

text \<open>
  Claim C9. For a manifest of records carrying \<^verbatim>\<open>model_id\<close> strings, \<^verbatim>\<open>tc_models\<close> is
  \<^verbatim>\<open>tc_models_all_versions\<close> with every entry kept at the position of its first occurrence
  and dropped everywhere else: it has no duplicates, the same elements as
  \<^verbatim>\<open>tc_models_all_versions\<close>, and each of them exactly once.
\<close>

theorem tc_models_first_occurrences:
  assumes "map model_id_of ms = map Some ids"
    and "tc_models_all_versions (JArr ms) = Inr av"
  shows "tc_models av =
           map (\<lambda>i. av ! i) (filter (\<lambda>i. av ! i \<notin> set (take i av)) [0..<length av]) \<and>
         distinct (tc_models av) \<and> set (tc_models av) = set av \<and>
         (\<forall>x \<in> set av. count_list (tc_models av) x = 1)"
proof -
  from assms obtain xs where av: "av = map JStr xs"
    by (auto simp: tc_models_all_versions_strs)
  have k: "tc_models av = keep_first {} av"
    by (simp add: av tc_models_strs)
  have d: "distinct (tc_models av)" by (simp add: k distinct_keep_first)
  have s: "set (tc_models av) = set av" by (simp add: k set_keep_first)
  have n: "tc_models av =
      map (\<lambda>i. av ! i) (filter (\<lambda>i. av ! i \<notin> set (take i av)) [0..<length av])"
    unfolding k by (subst keep_first_nth) simp
  have c: "\<forall>x \<in> set av. count_list (tc_models av) x = 1"
    using d s by (simp add: count_list_distinct)
  from n d s c show ?thesis by blast
qed

theorem tc_models_first_occurrences_witness:
  "tc_models [JStr ''a-tc-b'', JStr ''c-tc-d'', JStr ''a-tc-b''] = [JStr ''a-tc-b'', JStr ''c-tc-d''] \<and>
   tc_models [JStr ''a-tc-b'', JStr ''c-tc-d'', JStr ''a-tc-b''] =
     map (\<lambda>i. [JStr ''a-tc-b'', JStr ''c-tc-d'', JStr ''a-tc-b''] ! i)
       (filter (\<lambda>i. [JStr ''a-tc-b'', JStr ''c-tc-d'', JStr ''a-tc-b''] ! i
                  \<notin> set (take i [JStr ''a-tc-b'', JStr ''c-tc-d'', JStr ''a-tc-b'']))
          [0..<length [JStr ''a-tc-b'', JStr ''c-tc-d'', JStr ''a-tc-b'']]) \<and>
   distinct (tc_models [JStr ''a-tc-b'', JStr ''c-tc-d'', JStr ''a-tc-b'']) \<and>
   count_list (tc_models [JStr ''a-tc-b'', JStr ''c-tc-d'', JStr ''a-tc-b'']) (JStr ''a-tc-b'') = 1"
proof -
  have h: "map model_id_of
     [JObj [(''model_id'', JStr ''a-tc-b'')], JObj [(''model_id'', JStr ''c-tc-d'')],
      JObj [(''model_id'', JStr ''x'')], JObj [(''model_id'', JStr ''a-tc-b'')]] =
     map Some [''a-tc-b'', ''c-tc-d'', ''x'', ''a-tc-b'']"
    by simp
  have c: "tc_models_all_versions (JArr
     [JObj [(''model_id'', JStr ''a-tc-b'')], JObj [(''model_id'', JStr ''c-tc-d'')],
      JObj [(''model_id'', JStr ''x'')], JObj [(''model_id'', JStr ''a-tc-b'')]]) =
     Inr [JStr ''a-tc-b'', JStr ''c-tc-d'', JStr ''a-tc-b'']"
    by (simp add: tc_models_all_versions_def py_iter_def py_getitem_def py_str_in_def)
  have v: "tc_models [JStr ''a-tc-b'', JStr ''c-tc-d'', JStr ''a-tc-b''] = [JStr ''a-tc-b'', JStr ''c-tc-d'']"
    by (simp add: tc_models_def py_in_list_def)
  from tc_models_first_occurrences[OF h c] v show ?thesis by simp
qed

section \<open>Running a cell: one rule per statement form\<close>

lemma seq_InlE:
  assumes "seq m f k = (Inl e, k')"
  obtains "m k = (Inl e, k')"
  | x k1 where "m k = (Inr x, k1)" "f x k1 = (Inl e, k')"
  using assms unfolding seq_def by (auto split: prod.splits sum.splits)

lemma seq_InrE:
  assumes "seq m f k = (Inr y, k')"
  obtains x k1 where "m k = (Inr x, k1)" "f x k1 = (Inr y, k')"
  using assms unfolding seq_def by (auto split: prod.splits sum.splits)

lemma call_InlE:
  assumes "call ev f k = (Inl e, k')"
  obtains msg w' where "f (world k) = (Inl msg, w')" "e = SdkError msg"
      "k' = log (Raised msg) (log ev (world_update (\<lambda>_. w') k))"
  using assms unfolding call_def by (auto split: prod.splits sum.splits)

lemma call_InrE:
  assumes "call ev f k = (Inr x, k')"
  obtains w' where "f (world k) = (Inr x, w')"
      "k' = log ev (world_update (\<lambda>_. w') k)"
  using assms unfolding call_def by (auto split: prod.splits sum.splits)

lemma attr_InlE:
  assumes "attr ev f k = (Inl e, k')"
  shows P
  using assms unfolding attr_def by auto

lemma attr_InrE:
  assumes "attr ev f k = (Inr x, k')"
  obtains "x = f (world k)" "k' = log ev k"
  using assms unfolding attr_def by auto

lemma emit_InlE:
  assumes "emit ev k = (Inl e, k')"
  shows P
  using assms unfolding emit_def by auto

lemma emit_InrE:
  assumes "emit ev k = (Inr x, k')"
  obtains "k' = log ev k"
  using assms unfolding emit_def by auto

lemma effect_InlE:
  assumes "effect ev f k = (Inl e, k')"
  shows P
  using assms unfolding effect_def by auto

lemma effect_InrE:
  assumes "effect ev f k = (Inr x, k')"
  obtains "k' = log ev (world_update f k)"
  using assms unfolding effect_def by auto

lemma name_InlE:
  assumes "name x field k = (Inl e, k')"
  obtains "field (globals k) = None" "e = NameError x" "k' = k"
  using assms unfolding name_def by (auto split: option.splits)

lemma name_InrE:
  assumes "name x field k = (Inr v, k')"
  obtains "field (globals k) = Some v" "k' = k"
  using assms unfolding name_def by (auto split: option.splits)

lemma assign_InlE:
  assumes "assign upd k = (Inl e, k')"
  shows P
  using assms unfolding assign_def by auto

lemma assign_InrE:
  assumes "assign upd k = (Inr x, k')"
  obtains "k' = globals_update upd k"
  using assms unfolding assign_def by auto

lemma ret_InlE:
  assumes "ret x k = (Inl e, k')"
  shows P
  using assms unfolding ret_def by auto

lemma ret_InrE:
  assumes "ret x k = (Inr y, k')"
  obtains "y = x" "k' = k"
  using assms unfolding ret_def by auto

lemma raise_InlE:
  assumes "raise e k = (Inl e', k')"
  obtains "e' = e" "k' = k"
  using assms unfolding raise_def by auto

lemma raise_InrE:
  assumes "raise e k = (Inr y, k')"
  shows P
  using assms unfolding raise_def by auto

lemma with_exit_InlE:
  assumes "with_exit m (effect ev f) k = (Inl e, k')"
  obtains k1 where "m k = (Inl e, k1)"
    "k' = log ev (world_update f k1)"
  using assms unfolding with_exit_def effect_def by (auto split: prod.splits)

lemma with_exit_InrE:
  assumes "with_exit m (effect ev f) k = (Inr x, k')"
  obtains k1 where "m k = (Inr x, k1)"
    "k' = log ev (world_update f k1)"
  using assms unfolding with_exit_def effect_def by (auto split: prod.splits)

lemma run_Nil_InlE:
  assumes "run [] k = (Inl e, k')"
  shows P
  using assms by (auto simp: ret_def)

lemma run_Nil_InrE:
  assumes "run [] k = (Inr x, k')"
  obtains "k' = k"
  using assms by (auto simp: ret_def)

lemma run_Cons_InlE:
  assumes "run (c # cs) k = (Inl e, k')"
  obtains "c k = (Inl e, k')"
  | k1 where "c k = (Inr (), k1)" "run cs k1 = (Inl e, k')"
  using assms by (auto elim!: seq_InlE)

lemma run_Cons_InrE:
  assumes "run (c # cs) k = (Inr x, k')"
  obtains k1 where "c k = (Inr (), k1)" "run cs k1 = (Inr x, k')"
  using assms by (auto elim!: seq_InrE)

lemma sum_caseE:
  assumes "(case s of Inl e \<Rightarrow> a e | Inr v \<Rightarrow> b v) k = (r, k')"
  obtains e where "s = Inl e" "a e k = (r, k')"
  | v where "s = Inr v" "b v k = (r, k')"
  using assms by (cases s) auto

lemmas py_elims = seq_InlE seq_InrE call_InlE call_InrE attr_InlE attr_InrE emit_InlE emit_InrE
  effect_InlE effect_InrE name_InlE name_InrE assign_InlE assign_InrE ret_InlE ret_InrE
  raise_InlE raise_InrE with_exit_InlE with_exit_InrE run_Nil_InlE run_Nil_InrE
  run_Cons_InlE run_Cons_InrE sum_caseE

lemma kernel_simps [simp]:
  "trace (log ev k) = trace k @ [ev]"
  "world (log ev k) = world k"
  "globals (log ev k) = globals k"
  by (simp_all add: log_def)

section \<open>The events a cell can emit\<close>

lemma emits_ret: "emits Q (ret x)"
  by (simp add: emits_def ret_def)

lemma emits_raise: "emits Q (raise e)"
  by (simp add: emits_def raise_def)

lemma emits_name: "emits Q (name x f)"
  by (simp add: emits_def name_def split: option.splits)

lemma emits_assign: "emits Q (assign u)"
  by (simp add: emits_def assign_def)

lemma emits_emit: "Q ev \<Longrightarrow> emits Q (emit ev)"
  by (simp add: emits_def emit_def)

lemma emits_attr: "Q ev \<Longrightarrow> emits Q (attr ev f)"
  by (simp add: emits_def attr_def)

lemma emits_effect: "Q ev \<Longrightarrow> emits Q (effect ev f)"
  by (simp add: emits_def effect_def)

lemma emits_call: "Q ev \<Longrightarrow> (\<And>m. Q (Raised m)) \<Longrightarrow> emits Q (call ev f)"
  by (simp add: emits_def call_def split: prod.splits sum.splits)

lemma emits_seq:
  assumes "emits Q m" and "\<And>x. emits Q (f x)"
  shows "emits Q (seq m f)"
  unfolding emits_def
proof
  fix k
  from assms(1) obtain evs where 1: "trace (snd (m k)) = trace k @ evs" "list_all Q evs"
    unfolding emits_def by blast
  show "\<exists>evs. trace (snd (seq m f k)) = trace k @ evs \<and> list_all Q evs"
  proof (cases "m k")
    case (Pair r k1)
    show ?thesis
    proof (cases r)
      case (Inl e)
      with Pair 1 show ?thesis by (auto simp: seq_def)
    next
      case (Inr x)
      from assms(2)[of x] obtain evs2 where
        2: "trace (snd (f x k1)) = trace k1 @ evs2" "list_all Q evs2"
        unfolding emits_def by blast
      with Pair Inr 1 have "trace (snd (seq m f k)) = trace k @ (evs @ evs2)"
        by (simp add: seq_def)
      with 1 2 show ?thesis by (metis list_all_append)
    qed
  qed
qed

lemma emits_run_Nil: "emits Q (run [])"
  by (simp add: emits_ret)

lemma emits_run_Cons: "emits Q c \<Longrightarrow> emits Q (run cs) \<Longrightarrow> emits Q (run (c # cs))"
  by (simp add: emits_seq)

lemma emits_with_exit:
  assumes "emits Q m" and "emits Q fin"
  shows "emits Q (with_exit m fin)"
  unfolding emits_def
proof
  fix k
  from assms(1) obtain evs where 1: "trace (snd (m k)) = trace k @ evs" "list_all Q evs"
    unfolding emits_def by blast
  from assms(2) obtain evs2 where
    2: "trace (snd (fin (snd (m k)))) = trace (snd (m k)) @ evs2" "list_all Q evs2"
    unfolding emits_def by blast
  have "trace (snd (with_exit m fin k)) = trace k @ (evs @ evs2)"
    using 1 2 by (auto simp: with_exit_def split: prod.splits sum.splits)
  with 1 2 show "\<exists>evs. trace (snd (with_exit m fin k)) = trace k @ evs \<and> list_all Q evs"
    by (metis list_all_append)
qed

lemma emits_case_sum:
  "(\<And>e. emits Q (a e)) \<Longrightarrow> (\<And>v. emits Q (b v)) \<Longrightarrow> emits Q (case s of Inl e \<Rightarrow> a e | Inr v \<Rightarrow> b v)"
  by (cases s) auto

lemma emits_case_option:
  "emits Q a \<Longrightarrow> (\<And>v. emits Q (b v)) \<Longrightarrow> emits Q (case s of None \<Rightarrow> a | Some v \<Rightarrow> b v)"
  by (cases s) auto

lemmas emits_intros = emits_ret emits_raise emits_name emits_assign emits_emit emits_attr
  emits_effect emits_call emits_seq emits_run_Nil emits_run_Cons emits_with_exit
  emits_case_sum emits_case_option

lemma select_emits: "emits (\<lambda>ev. \<not> endpoint_event ev) (js_cell_select sdk)"
  unfolding js_cell_select_def
  by (intro emits_intros; simp)

section \<open>The endpoint cells of the JumpStart notebook\<close>

lemma emitsD:
  assumes "emits Q m" and "m k = (r, k')"
  obtains evs where "trace k' = trace k @ evs" "list_all Q evs"
  using assms unfolding emits_def by (metis snd_conv)

lemma run_append: "run (xs @ ys) = seq (run xs) (\<lambda>_. run ys)"
proof (induction xs)
  case Nil
  show ?case by (simp add: seq_def ret_def)
next
  case (Cons c cs)
  show ?case
    by (rule ext) (simp add: Cons seq_def split: prod.splits sum.splits)
qed

lemma predict_loop_2:
  "predict_loop sdk [a, b] = run
     [assign (js_text_update (\<lambda>_. Some a)),
      seq (name ''predictor'' js_predictor)
        (\<lambda>p. seq (name ''text'' js_text)
          (\<lambda>x. seq (call (Predict p x) (sdk_predict sdk p x))
            (\<lambda>r. assign (js_query_response_update (\<lambda>_. Some r))))),
      seq (name ''query_response'' js_query_response) (\<lambda>r. emit (PrintValue r)),
      run [assign (js_text_update (\<lambda>_. Some b)),
      seq (name ''predictor'' js_predictor)
        (\<lambda>p. seq (name ''text'' js_text)
          (\<lambda>x. seq (call (Predict p x) (sdk_predict sdk p x))
            (\<lambda>r. assign (js_query_response_update (\<lambda>_. Some r))))),
      seq (name ''query_response'' js_query_response) (\<lambda>r. emit (PrintValue r)),
      run []]]"
  by simp

lemma deploy_spec:
  "js_cell_deploy sdk k = (r, k') \<Longrightarrow>
   (\<exists>e p. r = Inr () \<and> trace k' = trace k @ [Deploy e] \<and> js_predictor (globals k') = Some p) \<or>
   (\<exists>err. r = Inl err \<and> (trace k' = trace k \<or> (\<exists>e m. trace k' = trace k @ [Deploy e, Raised m])))"
  unfolding js_cell_deploy_def
  by (cases r; hypsubst; elim py_elims; hypsubst; simp)

lemma texts_spec:
  "js_cell_texts sdk k = (r, k') \<Longrightarrow>
   r = Inr () \<and> trace k' = trace k \<and> js_predictor (globals k') = js_predictor (globals k) \<and>
         js_text1 (globals k') = Some text1 \<and> js_text2 (globals k') = Some text2"
  unfolding js_cell_texts_def
  by (cases r; hypsubst; elim py_elims; hypsubst; simp)

lemma predict_spec:
  "js_cell_predict sdk k = (r, k') \<Longrightarrow> js_predictor (globals k) = Some p \<Longrightarrow>
   js_text1 (globals k) = Some a \<Longrightarrow> js_text2 (globals k) = Some b \<Longrightarrow>
   (r = Inr () \<and> fe k' = fe k @ [Predict p a, Predict p b] \<and>
            js_predictor (globals k') = Some p) \<or>
         (\<exists>err. r = Inl err \<and> (fe k' = fe k @ [Predict p a] \<or> fe k' = fe k @ [Predict p a, Predict p b]))"
  unfolding js_cell_predict_def predict_loop_2
  by (cases r; hypsubst; elim py_elims; hypsubst; simp)

lemma delete_spec:
  "js_cell_delete sdk k = (r, k') \<Longrightarrow> js_predictor (globals k) = Some p \<Longrightarrow>
   (r = Inr () \<and> trace k' = trace k @ [DeletePredictor p]) \<or>
         (\<exists>m. r = Inl (SdkError m) \<and> trace k' = trace k @ [DeletePredictor p, Raised m])"
  unfolding js_cell_delete_def
  by (cases r; hypsubst; elim py_elims; hypsubst; simp)

lemma first_cells_emit:
  "emits (\<lambda>ev. \<not> endpoint_event ev)
     (run [js_cell_pip sdk, js_cell_setup sdk, js_cell_model_id sdk, js_cell_select sdk,
           js_cell_dropdown_value sdk, js_cell_data sdk, js_cell_estimator sdk, js_cell_fit sdk])"
  unfolding js_cell_pip_def js_cell_setup_def js_cell_model_id_def js_cell_select_def
    js_cell_dropdown_value_def js_cell_data_def js_cell_estimator_def js_cell_fit_def
  by (intro emits_intros; simp)

lemma jumpstart_split:
  "jumpstart_notebook sdk w =
     seq (run [js_cell_pip sdk, js_cell_setup sdk, js_cell_model_id sdk, js_cell_select sdk,
               js_cell_dropdown_value sdk, js_cell_data sdk, js_cell_estimator sdk, js_cell_fit sdk])
       (\<lambda>_. run [js_cell_deploy sdk, js_cell_texts sdk, js_cell_predict sdk, js_cell_delete sdk])
       (fresh js_empty w)"
  unfolding jumpstart_notebook_def jumpstart_cells_def
  by (subst run_append[symmetric]) simp

lemma endpoint_order_early:
  assumes "filter endpoint_event tr = evs" "prefix evs [Deploy e, Predict p text1, Predict p text2]"
    and "r \<noteq> Inr ()"
  shows "endpoint_order r tr"
proof -
  have "DeletePredictor q \<notin> set tr" for q
  proof
    assume "DeletePredictor q \<in> set tr"
    then have "DeletePredictor q \<in> set evs" using assms(1) by auto
    with assms(2) have "DeletePredictor q \<in> set [Deploy e, Predict p text1, Predict p text2]"
      using set_mono_prefix by blast
    then show False by simp
  qed
  note no = this
  have 3: "\<forall>q pre post. tr = pre @ DeletePredictor q # post \<longrightarrow>
               post = [] \<or> (\<exists>m. post = [Raised m])"
  proof (intro allI impI)
    fix q pre post
    assume "tr = pre @ DeletePredictor q # post"
    then have "DeletePredictor q \<in> set tr" by simp
    with no show "post = [] \<or> (\<exists>m. post = [Raised m])" by blast
  qed
  from assms(2) obtain zs where "[Deploy e, Predict p text1, Predict p text2] = evs @ zs"
    by (auto simp: prefix_def)
  then have "[Deploy e, Predict p text1, Predict p text2, DeletePredictor p]
      = evs @ (zs @ [DeletePredictor p])"
    by (metis append_Cons append_Nil append_assoc)
  then have "prefix evs [Deploy e, Predict p text1, Predict p text2, DeletePredictor p]"
    unfolding prefix_def by blast
  with assms 3 show ?thesis unfolding endpoint_order_def by blast
qed

lemma endpoint_order_late:
  assumes "filter endpoint_event tr0 = [Deploy e, Predict p text1, Predict p text2]"
    and "tr = tr0 @ DeletePredictor p # post" and "post = [] \<or> (\<exists>m. post = [Raised m])"
    and "r = Inr () \<longrightarrow> post = []"
  shows "endpoint_order r tr"
proof -
  have no: "DeletePredictor q \<notin> set tr0" for q
  proof
    assume "DeletePredictor q \<in> set tr0"
    then have "DeletePredictor q \<in> set (filter endpoint_event tr0)" by simp
    then show False unfolding assms(1) by simp
  qed
  have f: "filter endpoint_event tr = [Deploy e, Predict p text1, Predict p text2, DeletePredictor p]"
    using assms(1,2,3) by auto
  have 3: "post' = post" if "tr = pre @ DeletePredictor q # post'" for q pre post'
  proof -
    from that assms(2) have eq: "pre @ DeletePredictor q # post' = tr0 @ DeletePredictor p # post"
      by simp
    have np: "DeletePredictor q \<notin> set post" using assms(3) by auto
    from eq consider us where "pre = tr0 @ us" "us @ DeletePredictor q # post' = DeletePredictor p # post"
      | us where "pre @ us = tr0" "DeletePredictor q # post' = us @ DeletePredictor p # post"
      by (auto simp: append_eq_append_conv2)
    then show ?thesis
    proof cases
      case 1
      show ?thesis
      proof (cases us)
        case Nil
        with 1 show ?thesis by simp
      next
        case (Cons u us')
        with 1 have "post = us' @ DeletePredictor q # post'" by simp
        with np show ?thesis by simp
      qed
    next
      case 2
      show ?thesis
      proof (cases us)
        case Nil
        with 2 show ?thesis by simp
      next
        case (Cons u us')
        with 2 have "u = DeletePredictor q" "u \<in> set tr0" by auto
        with no show ?thesis by blast
      qed
    qed
  qed
  show ?thesis
    unfolding endpoint_order_def
    apply (rule exI[of _ e], rule exI[of _ p])
    using f 3 assms(3) by auto
qed

lemma run_ConsE:
  assumes "run (c # cs) k = (r, k')"
  obtains (fail) e where "c k = (Inl e, k')" "r = Inl e"
  | (ok) k1 where "c k = (Inr (), k1)" "run cs k1 = (r, k')"
proof (cases r)
  case (Inl a)
  with assms have "run (c # cs) k = (Inl a, k')" by simp
  then show thesis
    by (rule run_Cons_InlE) (auto intro: fail ok simp: Inl)
next
  case (Inr u)
  with assms have "run (c # cs) k = (Inr u, k')" by simp
  then show thesis
    by (rule run_Cons_InrE) (auto intro: ok simp: Inr)
qed

lemma run_NilE:
  assumes "run [] k = (r, k')"
  obtains "r = Inr ()" "k' = k"
  using assms by (simp add: ret_def)

lemma seqE:
  assumes "seq m f k = (r, k')"
  obtains (fail) e where "m k = (Inl e, k')" "r = Inl e"
  | (ok) x k1 where "m k = (Inr x, k1)" "f x k1 = (r, k')"
proof (cases r)
  case (Inl a)
  with assms have "seq m f k = (Inl a, k')" by simp
  then show thesis
    by (rule seq_InlE) (auto intro: fail ok simp: Inl)
next
  case (Inr u)
  with assms have "seq m f k = (Inr u, k')" by simp
  then show thesis
    by (rule seq_InrE) (auto intro: ok simp: Inr)
qed

lemma order_delete:
  assumes "run [js_cell_delete sdk] k = (r, k')"
    and "fe k = [Deploy e, Predict q text1, Predict q text2]"
    and "js_predictor (globals k) = Some q"
  shows "endpoint_order r (trace k')"
  using assms(1)
proof (cases rule: run_ConsE)
  case (fail err)
  from delete_spec[OF fail(1) assms(3)] obtain m where
    "trace k' = trace k @ DeletePredictor q # [Raised m]" by auto
  then show ?thesis
    by (rule endpoint_order_late[OF assms(2)]) (simp_all add: fail(2))
next
  case (ok k1)
  from ok(2) have r: "r = Inr ()" "k' = k1" by (simp_all add: ret_def)
  with delete_spec[OF ok(1) assms(3)] have "trace k' = trace k @ DeletePredictor q # []" by auto
  then show ?thesis
    by (rule endpoint_order_late[OF assms(2)]) simp_all
qed

lemma order_predict:
  assumes "run [js_cell_predict sdk, js_cell_delete sdk] k = (r, k')"
    and "fe k = [Deploy e]" and "js_predictor (globals k) = Some q"
    and "js_text1 (globals k) = Some text1" and "js_text2 (globals k) = Some text2"
  shows "endpoint_order r (trace k')"
  using assms(1)
proof (cases rule: run_ConsE)
  case (fail err)
  from predict_spec[OF fail(1) assms(3,4,5)] assms(2)
  have "prefix (fe k') [Deploy e, Predict q text1, Predict q text2]" by auto
  then show ?thesis
    by (rule endpoint_order_early[OF refl]) (simp add: fail(2))
next
  case (ok k1)
  from predict_spec[OF ok(1) assms(3,4,5)] assms(2)
  have "fe k1 = [Deploy e, Predict q text1, Predict q text2]" "js_predictor (globals k1) = Some q"
    by auto
  then show ?thesis by (rule order_delete[OF ok(2)])
qed

lemma order_texts:
  assumes "run [js_cell_texts sdk, js_cell_predict sdk, js_cell_delete sdk] k = (r, k')"
    and "fe k = [Deploy e]" and "js_predictor (globals k) = Some q"
  shows "endpoint_order r (trace k')"
  using assms(1)
proof (cases rule: run_ConsE)
  case (fail err)
  from texts_spec[OF fail(1)] show ?thesis by simp
next
  case (ok k1)
  from texts_spec[OF ok(1)] assms(2,3) have
    "fe k1 = [Deploy e]" "js_predictor (globals k1) = Some q"
    "js_text1 (globals k1) = Some text1" "js_text2 (globals k1) = Some text2" by auto
  then show ?thesis by (rule order_predict[OF ok(2)])
qed

lemma order_deploy:
  assumes "run [js_cell_deploy sdk, js_cell_texts sdk, js_cell_predict sdk, js_cell_delete sdk] k
             = (r, k')"
    and "fe k = []"
  shows "endpoint_order r (trace k')"
  using assms(1)
proof (cases rule: run_ConsE)
  case (fail err)
  from deploy_spec[OF fail(1)] assms(2) obtain e where
    "prefix (fe k') [Deploy e, Predict 0 text1, Predict 0 text2]" by auto
  then show ?thesis
    by (rule endpoint_order_early[OF refl]) (simp add: fail(2))
next
  case (ok k1)
  from deploy_spec[OF ok(1)] assms(2) obtain e q where
    "fe k1 = [Deploy e]" "js_predictor (globals k1) = Some q" by auto
  then show ?thesis by (rule order_texts[OF ok(2)])
qed

lemma endpoint_order_run:
  assumes "jumpstart_notebook sdk w = (r, k')"
  shows "endpoint_order r (trace k')"
proof -
  let ?first = "run [js_cell_pip sdk, js_cell_setup sdk, js_cell_model_id sdk, js_cell_select sdk,
               js_cell_dropdown_value sdk, js_cell_data sdk, js_cell_estimator sdk, js_cell_fit sdk]"
  let ?k0 = "fresh js_empty w :: (js_globals, 'a) kernel"
  have quiet: "fe k1 = []" if "?first ?k0 = (r1, k1)" for r1 k1
  proof -
    from emitsD[OF first_cells_emit that] obtain evs where
      "trace k1 = trace ?k0 @ evs" "list_all (\<lambda>ev. \<not> endpoint_event ev) evs" .
    then show ?thesis by (simp add: fresh_def list_all_iff)
  qed
  from assms have s: "seq ?first
       (\<lambda>_. run [js_cell_deploy sdk, js_cell_texts sdk, js_cell_predict sdk, js_cell_delete sdk])
       ?k0 = (r, k')"
    by (simp only: jumpstart_split)
  then show ?thesis
  proof (cases rule: seqE)
    case (fail err)
    from quiet[OF fail(1)] have "prefix (fe k') [Deploy 0, Predict 0 text1, Predict 0 text2]"
      by simp
    then show ?thesis
      by (rule endpoint_order_early[OF refl]) (simp add: fail(2))
  next
    case (ok x k1)
    from ok(2) quiet[OF ok(1)] show ?thesis by (rule order_deploy)
  qed
qed

lemmas py_defs = seq_def call_def attr_def emit_def name_def assign_def ret_def raise_def
  effect_def with_exit_def log_def

lemmas js_cells = js_cell_pip_def js_cell_setup_def js_cell_model_id_def js_cell_select_def
  js_cell_dropdown_value_def js_cell_data_def js_cell_estimator_def js_cell_fit_def
  js_cell_deploy_def js_cell_texts_def js_cell_predict_def js_cell_delete_def

lemma tav_ok: "tc_models_all_versions manifest_ok = Inr [JStr model_id, JStr model_id]"
  by (simp add: manifest_ok_def tc_models_all_versions_def py_iter_def py_getitem_def
      py_str_in_def model_id_def)

lemma run_ok:
  "fst (jumpstart_notebook (sdk_ok manifest_ok) ()) = Inr () \<and>
   filter endpoint_event (trace (snd (jumpstart_notebook (sdk_ok manifest_ok) ()))) =
     [Deploy 6, Predict 7 text1, Predict 7 text2, DeletePredictor 7]"
  by (simp add: jumpstart_notebook_def jumpstart_cells_def fresh_def js_empty_def py_defs js_cells
      sdk_ok_def tav_ok py_in_list_def)

section \<open>The profiling configuration and the rule output path\<close>

lemmas pf_cells = pf_cell_hyperparameters_def pf_cell_distributions_def pf_cell_rules_def
  pf_cell_profiler_config_def pf_cell_estimator_def pf_cell_fit_def pf_cell_job_def
  pf_cell_wait_def pf_cell_charts_def pf_cell_rule_output_def pf_cell_empty_def

text \<open>
  Claim C5. The profiler configuration has the monitoring interval 500, and its framework
  profile is built from \<^verbatim>\<open>num_steps=10\<close> alone: no start step is passed, so the record
  holds no step range, while the range from step 5 to step 15 that the notebook's text
  announces is what \<^verbatim>\<open>start_step=5, num_steps=10\<close> would give.
\<close>

theorem profiler_config_no_start_step:
  "system_monitor_interval_millis profiler_config = Some 500 \<and>
   framework_profile_params profiler_config = Some \<lparr>start_step = None, num_steps = Some 10\<rparr> \<and>
   step_range \<lparr>start_step = None, num_steps = Some 10\<rparr> = None \<and>
   step_range \<lparr>start_step = Some 5, num_steps = Some 10\<rparr> = Some (5, 15)"
  by (simp add: profiler_config_def FrameworkProfile_num_steps_def step_range_def)

text \<open>
  Claim C6. When the estimator has an output path and a latest training job, the rule
  output cell binds \<^verbatim>\<open>rule_output_path\<close> to the output path, followed by the job name,
  followed by \<^verbatim>\<open>/rule-output\<close>, with nothing in between, after reading the two attributes
  in this order, and prints it.
\<close>

theorem rule_output_path_concat:
  assumes "pf_estimator (globals k) = Some e"
    and "sdk_output_path sdk e (world k) = Some p"
    and "sdk_latest_training_job sdk e (world k) = Some tj"
  shows "rule_output_path (Some p) (Some tj) = Inr (p @ job_name tj @ ''/rule-output'') \<and>
         fst (pf_cell_rule_output sdk k) = Inr () \<and>
         pf_rule_output_path (globals (snd (pf_cell_rule_output sdk k))) =
           Some (p @ job_name tj @ ''/rule-output'') \<and>
         trace (snd (pf_cell_rule_output sdk k)) =
           trace k @ [OutputPath e, LatestTrainingJob e,
             Print (''You will find the profiler report in '' @ p @ job_name tj @ ''/rule-output'')] \<and>
         length (p @ job_name tj @ ''/rule-output'') = length p + length (job_name tj) + 12 \<and>
         take (length p) (p @ job_name tj @ ''/rule-output'') = p \<and>
         drop (length p + length (job_name tj)) (p @ job_name tj @ ''/rule-output'') = ''/rule-output''"
  using assms
  by (simp add: pf_cell_rule_output_def py_defs rule_output_path_def)

theorem rule_output_path_concat_witness:
  "fst (pf_cell_rule_output (sdk_ok manifest_ok)
      (fresh (pf_empty\<lparr>pf_estimator := Some 8\<rparr>) ())) = Inr () \<and>
   pf_rule_output_path (globals (snd (pf_cell_rule_output (sdk_ok manifest_ok)
      (fresh (pf_empty\<lparr>pf_estimator := Some 8\<rparr>) ())))) =
     Some ''s3://sagemaker-us-west-2-1/tensorflow-training-2021/rule-output''"
  using rule_output_path_concat[of "fresh (pf_empty\<lparr>pf_estimator := Some 8\<rparr>) ()" 8
      "sdk_ok manifest_ok" "''s3://sagemaker-us-west-2-1/''" "\<lparr>training_job.name = ''tensorflow-training-2021'', job_name = ''tensorflow-training-2021''\<rparr>"]
  by (simp add: fresh_def pf_empty_def sdk_ok_def)

section \<open>The profiling notebook: the shape of a run\<close>

lemma keeps_assign: "(\<And>g. fd (upd g) = fd g) \<Longrightarrow> keeps fd (assign upd)"
  by (simp add: keeps_def assign_def)

lemma config_cells:
  "run [pf_cell_hyperparameters sdk, pf_cell_distributions sdk, pf_cell_rules sdk,
        pf_cell_profiler_config sdk] (fresh pf_empty w) =
     (Inr (), fresh (pf_empty\<lparr>pf_hyperparameters := Some hyperparameters,
                              pf_distributions := Some distributions,
                              pf_rules := Some rules,
                              pf_profiler_config := Some profiler_config\<rparr>) w)"
  by (simp add: pf_cells py_defs fresh_def)

lemma after_fit_emit:
  "emits job_query_or_poll (run [pf_cell_job sdk, pf_cell_wait sdk, pf_cell_charts sdk,
      pf_cell_rule_output sdk, pf_cell_empty sdk])"
  unfolding pf_cells
  by (intro emits_intros; simp)

lemma estimator_spec:
  "pf_cell_estimator sdk k = (r, k') \<Longrightarrow> configured (globals k) \<Longrightarrow>
   (\<exists>role e. r = Inr () \<and> trace k' = trace k @ [GetExecutionRole, tf_event role] \<and>
       fst (sdk_get_execution_role sdk (world k)) = Inr role \<and>
       pf_estimator (globals k') = Some e) \<or>
   (\<exists>m. r = Inl (SdkError m) \<and> trace k' = trace k @ [GetExecutionRole, Raised m] \<and>
       fst (sdk_get_execution_role sdk (world k)) = Inl m) \<or>
   (\<exists>role m. r = Inl (SdkError m) \<and>
       fst (sdk_get_execution_role sdk (world k)) = Inr role \<and>
       trace k' = trace k @ [GetExecutionRole, tf_event role, Raised m])"
  unfolding pf_cell_estimator_def configured_def
  by (cases r; hypsubst; elim py_elims; hypsubst; auto)

lemma fit_spec:
  "pf_cell_fit sdk k = (r, k') \<Longrightarrow> pf_estimator (globals k) = Some e \<Longrightarrow>
   (r = Inr () \<and> trace k' = trace k @ [Fit e fit_wait_False]) \<or>
   (\<exists>m. r = Inl (SdkError m) \<and> trace k' = trace k @ [Fit e fit_wait_False, Raised m])"
  unfolding pf_cell_fit_def
  by (cases r; hypsubst; elim py_elims; hypsubst; simp)

lemma unique_split:
  assumes "pre @ x # post = pre' @ x' # post'"
    and "\<forall>z\<in>set pre'. \<not> P z" and "\<forall>z\<in>set post'. \<not> P z" and "P x"
  shows "pre = pre' \<and> x = x' \<and> post = post'"
proof -
  from assms(1) consider us where "pre = pre' @ us" "us @ x # post = x' # post'"
    | us where "pre @ us = pre'" "x # post = us @ x' # post'"
    by (auto simp: append_eq_append_conv2)
  then show ?thesis
  proof cases
    case 1
    show ?thesis
    proof (cases us)
      case Nil
      with 1 show ?thesis by simp
    next
      case (Cons u us')
      with 1 have "x \<in> set post'" by auto
      with assms(3,4) show ?thesis by blast
    qed
  next
    case 2
    show ?thesis
    proof (cases us)
      case Nil
      with 2 show ?thesis by simp
    next
      case (Cons u us')
      with 2 have "x \<in> set pre'" by auto
      with assms(2,4) show ?thesis by blast
    qed
  qed
qed

lemma profiling_split:
  "profiling_notebook sdk w =
     run [pf_cell_estimator sdk, pf_cell_fit sdk, pf_cell_job sdk, pf_cell_wait sdk,
          pf_cell_charts sdk, pf_cell_rule_output sdk, pf_cell_empty sdk]
       (fresh (pf_empty\<lparr>pf_hyperparameters := Some hyperparameters,
                              pf_distributions := Some distributions,
                              pf_rules := Some rules,
                              pf_profiler_config := Some profiler_config\<rparr>) w)"
proof -
  have "profiling_notebook sdk w =
      run ([pf_cell_hyperparameters sdk, pf_cell_distributions sdk, pf_cell_rules sdk,
        pf_cell_profiler_config sdk] @
        [pf_cell_estimator sdk, pf_cell_fit sdk, pf_cell_job sdk, pf_cell_wait sdk,
          pf_cell_charts sdk, pf_cell_rule_output sdk, pf_cell_empty sdk]) (fresh pf_empty w)"
    by (simp add: profiling_notebook_def profiling_cells_def)
  also have "\<dots> = run [pf_cell_estimator sdk, pf_cell_fit sdk, pf_cell_job sdk, pf_cell_wait sdk,
          pf_cell_charts sdk, pf_cell_rule_output sdk, pf_cell_empty sdk]
       (fresh (pf_empty\<lparr>pf_hyperparameters := Some hyperparameters,
                              pf_distributions := Some distributions,
                              pf_rules := Some rules,
                              pf_profiler_config := Some profiler_config\<rparr>) w)"
    by (simp only: run_append seq_def config_cells prod.case sum.case)
  finally show ?thesis .
qed

lemma pf_shape_run:
  assumes "profiling_notebook sdk w = (r, k')"
  shows "pf_shape (fst (sdk_get_execution_role sdk w)) (trace k')"
proof -
  let ?k4 = "fresh (pf_empty\<lparr>pf_hyperparameters := Some hyperparameters,
                              pf_distributions := Some distributions,
                              pf_rules := Some rules,
                              pf_profiler_config := Some profiler_config\<rparr>) w
              :: (pf_globals, 'a) kernel"
  have c4: "configured (globals ?k4)" "trace ?k4 = []" "world ?k4 = w"
    by (simp_all add: configured_def fresh_def)
  from assms have run: "run [pf_cell_estimator sdk, pf_cell_fit sdk, pf_cell_job sdk,
      pf_cell_wait sdk, pf_cell_charts sdk, pf_cell_rule_output sdk, pf_cell_empty sdk] ?k4
      = (r, k')"
    by (simp only: profiling_split)
  from run show ?thesis
  proof (cases rule: run_ConsE)
    case (fail err)
    from estimator_spec[OF fail(1) c4(1)] fail(2) show ?thesis
      by (auto simp: pf_shape_def c4)
  next
    case (ok k5)
    from estimator_spec[OF ok(1) c4(1)] obtain role e where
      5: "trace k5 = [GetExecutionRole, tf_event role]" "pf_estimator (globals k5) = Some e"
        "fst (sdk_get_execution_role sdk w) = Inr role"
      by (auto simp: c4)
    from ok(2) show ?thesis
    proof (cases rule: run_ConsE)
      case (fail err)
      from fit_spec[OF fail(1) 5(2)] obtain m where
        "trace k' = [GetExecutionRole, tf_event role] @ Fit e fit_wait_False # [Raised m]"
        by (auto simp: 5)
      then show ?thesis unfolding pf_shape_def using 5(3) by force
    next
      case (ok k6)
      from fit_spec[OF ok(1) 5(2)] have
        6: "trace k6 = [GetExecutionRole, tf_event role] @ [Fit e fit_wait_False]"
        by (auto simp: 5)
      from emitsD[OF after_fit_emit ok(2)] obtain evs where
        "trace k' = trace k6 @ evs" "list_all job_query_or_poll evs" .
      with 6 have "trace k' = [GetExecutionRole, tf_event role] @ Fit e fit_wait_False # evs"
        by simp
      with \<open>list_all job_query_or_poll evs\<close> 5(3) show ?thesis
        unfolding pf_shape_def by blast
    qed
  qed
qed

lemma shape_fit:
  assumes "pf_shape ro tr" and "tr = pre @ Fit e a # post"
  shows "a = fit_wait_False \<and> (\<exists>role. pre = [GetExecutionRole, tf_event role]) \<and>
         list_all job_query_or_poll post"
  using assms(1) unfolding pf_shape_def
proof (elim disjE exE conjE)
  fix m assume "tr = [GetExecutionRole, Raised m]"
  with assms(2) have "Fit e a \<in> set [GetExecutionRole, Raised m]" by (metis in_set_conv_decomp)
  then show ?thesis by simp
next
  fix role m assume "tr = [GetExecutionRole, tf_event role, Raised m]"
  with assms(2) have "Fit e a \<in> set [GetExecutionRole, tf_event role, Raised m]"
    by (metis in_set_conv_decomp)
  then show ?thesis by simp
next
  fix role e0 post0
  assume tr: "tr = [GetExecutionRole, tf_event role] @ Fit e0 fit_wait_False # post0"
    and q: "list_all job_query_or_poll post0"
  from tr assms(2) have
    eq: "pre @ Fit e a # post = [GetExecutionRole, tf_event role] @ Fit e0 fit_wait_False # post0"
    by simp
  have "pre = [GetExecutionRole, tf_event role] \<and> Fit e a = Fit e0 fit_wait_False \<and> post = post0"
  proof (rule unique_split[OF eq, where P = "\<lambda>ev. \<not> job_query_or_poll ev \<and> \<not> is_TensorFlowCtor ev
        \<and> ev \<noteq> GetExecutionRole"])
    show "\<forall>z\<in>set [GetExecutionRole, tf_event role].
       \<not> (\<not> job_query_or_poll z \<and> \<not> is_TensorFlowCtor z \<and> z \<noteq> GetExecutionRole)"
      by simp
    show "\<forall>z\<in>set post0.
       \<not> (\<not> job_query_or_poll z \<and> \<not> is_TensorFlowCtor z \<and> z \<noteq> GetExecutionRole)"
      using q by (simp add: list_all_iff)
    show "\<not> job_query_or_poll (Fit e a) \<and> \<not> is_TensorFlowCtor (Fit e a) \<and> Fit e a \<noteq> GetExecutionRole"
      by simp
  qed
  with q show ?thesis by auto
qed

lemma shape_tf:
  assumes "pf_shape ro tr"
  shows "(case ro of Inl m \<Rightarrow> filter is_TensorFlowCtor tr = []
          | Inr role \<Rightarrow> filter is_TensorFlowCtor tr = [tf_event role])"
proof -
  have nq: "filter is_TensorFlowCtor post = []" if "list_all job_query_or_poll post" for post
    using that by (induction post) (auto elim: job_query_or_poll.elims)
  from assms show ?thesis
    unfolding pf_shape_def by (auto simp: nq)
qed

text \<open>
  Claim C3. In the profiling notebook the first four cells bind, in this order, the
  hyperparameters, the distribution descriptor, the rule list and the profiler
  configuration, and issue no external call. Whatever the external calls answer, a
  \<^verbatim>\<open>fit\<close> event of the run is the non-blocking \<^verbatim>\<open>estimator.fit(wait=False)\<close>, it comes right
  after the role lookup and the construction of the estimator from these four records, and
  every event after it is a query of the job (session, region, latest training job, output
  path), a poll for profiling data, a print or the marker of a raised error: there is no
  second submission and no cancellation. Every cell after the submission, run from any
  state, emits only such events.
\<close>

theorem profiling_steps_order:
  "run (take 1 (profiling_cells sdk)) (fresh pf_empty w) =
     (Inr (), fresh (pf_empty\<lparr>pf_hyperparameters := Some hyperparameters\<rparr>) w) \<and>
   run (take 2 (profiling_cells sdk)) (fresh pf_empty w) =
     (Inr (), fresh (pf_empty\<lparr>pf_hyperparameters := Some hyperparameters,
                              pf_distributions := Some distributions\<rparr>) w) \<and>
   run (take 3 (profiling_cells sdk)) (fresh pf_empty w) =
     (Inr (), fresh (pf_empty\<lparr>pf_hyperparameters := Some hyperparameters,
                              pf_distributions := Some distributions,
                              pf_rules := Some rules\<rparr>) w) \<and>
   run (take 4 (profiling_cells sdk)) (fresh pf_empty w) =
     (Inr (), fresh (pf_empty\<lparr>pf_hyperparameters := Some hyperparameters,
                              pf_distributions := Some distributions,
                              pf_rules := Some rules,
                              pf_profiler_config := Some profiler_config\<rparr>) w) \<and>
   (\<forall>pre e a post. trace (snd (profiling_notebook sdk w)) = pre @ Fit e a # post \<longrightarrow>
      fit_wait a = Some False \<and> fit_inputs a = None \<and>
      (\<exists>role. pre = [GetExecutionRole,
         TensorFlowCtor (tensorflow_args role profiler_config hyperparameters distributions rules)]) \<and>
      list_all job_query_or_poll post) \<and>
   (\<forall>c \<in> set (drop 6 (profiling_cells sdk)). emits job_query_or_poll c)"
proof -
  have steps: "run (take 1 (profiling_cells sdk)) (fresh pf_empty w) =
     (Inr (), fresh (pf_empty\<lparr>pf_hyperparameters := Some hyperparameters\<rparr>) w)"
   "run (take 2 (profiling_cells sdk)) (fresh pf_empty w) =
     (Inr (), fresh (pf_empty\<lparr>pf_hyperparameters := Some hyperparameters,
                              pf_distributions := Some distributions\<rparr>) w)"
   "run (take 3 (profiling_cells sdk)) (fresh pf_empty w) =
     (Inr (), fresh (pf_empty\<lparr>pf_hyperparameters := Some hyperparameters,
                              pf_distributions := Some distributions,
                              pf_rules := Some rules\<rparr>) w)"
   "run (take 4 (profiling_cells sdk)) (fresh pf_empty w) =
     (Inr (), fresh (pf_empty\<lparr>pf_hyperparameters := Some hyperparameters,
                              pf_distributions := Some distributions,
                              pf_rules := Some rules,
                              pf_profiler_config := Some profiler_config\<rparr>) w)"
    by (simp_all add: profiling_cells_def pf_cell_hyperparameters_def pf_cell_distributions_def
        pf_cell_rules_def pf_cell_profiler_config_def py_defs fresh_def)
  obtain r k' where nb: "profiling_notebook sdk w = (r, k')" by (cases "profiling_notebook sdk w")
  from pf_shape_run[OF nb] have shape: "pf_shape (fst (sdk_get_execution_role sdk w)) (trace k')"
    by simp
  have fit: "\<forall>pre e a post. trace (snd (profiling_notebook sdk w)) = pre @ Fit e a # post \<longrightarrow>
      fit_wait a = Some False \<and> fit_inputs a = None \<and>
      (\<exists>role. pre = [GetExecutionRole, tf_event role]) \<and> list_all job_query_or_poll post"
  proof (intro allI impI)
    fix pre e a post
    assume "trace (snd (profiling_notebook sdk w)) = pre @ Fit e a # post"
    then have "trace k' = pre @ Fit e a # post" by (simp add: nb)
    from shape_fit[OF shape this]
    show "fit_wait a = Some False \<and> fit_inputs a = None \<and>
      (\<exists>role. pre = [GetExecutionRole, tf_event role]) \<and> list_all job_query_or_poll post"
      by (simp add: fit_wait_False_def)
  qed
  have cells: "\<forall>c \<in> set (drop 6 (profiling_cells sdk)). emits job_query_or_poll c"
    unfolding profiling_cells_def pf_cells
    by (simp; intro conjI emits_intros; simp)
  from steps fit cells show ?thesis by blast
qed

text \<open>
  Claim C7. Whatever the external calls answer, every \<^verbatim>\<open>TensorFlow\<close> constructor event of a
  run of the profiling notebook carries exactly the hyperparameters, the distribution
  descriptor, the rules and the profiler configuration written in the first four cells;
  there is at most one such event, and exactly one when the role lookup succeeds. When the
  estimator cell is entered the four variables hold the written values and no external
  call has been made; and among the four cells that precede the hand-off, none but the one
  that constructs a record assigns its variable. What the library does to an object after
  it has received it is not part of the statement.
\<close>

theorem configs_constructed_once_sent_once:
  "(\<forall>a. TensorFlowCtor a \<in> set (trace (snd (profiling_notebook sdk w))) \<longrightarrow>
      tf_hyperparameters a = hyperparameters \<and> tf_distribution a = distributions \<and>
      tf_rules a = rules \<and> tf_profiler_config a = profiler_config) \<and>
   length (filter is_TensorFlowCtor (trace (snd (profiling_notebook sdk w)))) \<le> 1 \<and>
   (\<forall>role. fst (sdk_get_execution_role sdk w) = Inr role \<longrightarrow>
      length (filter is_TensorFlowCtor (trace (snd (profiling_notebook sdk w)))) = 1) \<and>
   configured (globals (snd (run (take 4 (profiling_cells sdk)) (fresh pf_empty w)))) \<and>
   trace (snd (run (take 4 (profiling_cells sdk)) (fresh pf_empty w))) = [] \<and>
   (\<forall>c \<in> set (drop 1 (take 4 (profiling_cells sdk))). keeps pf_hyperparameters c) \<and>
   (\<forall>c \<in> set (take 1 (profiling_cells sdk) @ drop 2 (take 4 (profiling_cells sdk))).
      keeps pf_distributions c) \<and>
   (\<forall>c \<in> set (take 2 (profiling_cells sdk) @ drop 3 (take 4 (profiling_cells sdk))).
      keeps pf_rules c) \<and>
   (\<forall>c \<in> set (take 3 (profiling_cells sdk)). keeps pf_profiler_config c)"
proof -
  obtain r k' where nb: "profiling_notebook sdk w = (r, k')" by (cases "profiling_notebook sdk w")
  from pf_shape_run[OF nb] have shape: "pf_shape (fst (sdk_get_execution_role sdk w)) (trace k')" .
  note tf = shape_tf[OF shape]
  have a: "\<forall>a. TensorFlowCtor a \<in> set (trace (snd (profiling_notebook sdk w))) \<longrightarrow>
      tf_hyperparameters a = hyperparameters \<and> tf_distribution a = distributions \<and>
      tf_rules a = rules \<and> tf_profiler_config a = profiler_config"
  proof (intro allI impI)
    fix a assume "TensorFlowCtor a \<in> set (trace (snd (profiling_notebook sdk w)))"
    then have "TensorFlowCtor a \<in> set (filter is_TensorFlowCtor (trace k'))" by (simp add: nb)
    with tf obtain role where "TensorFlowCtor a = tf_event role"
      by (cases "fst (sdk_get_execution_role sdk w)") auto
    then show "tf_hyperparameters a = hyperparameters \<and> tf_distribution a = distributions \<and>
      tf_rules a = rules \<and> tf_profiler_config a = profiler_config"
      by (simp add: tensorflow_args_def)
  qed
  have b: "length (filter is_TensorFlowCtor (trace (snd (profiling_notebook sdk w)))) \<le> 1"
    using tf by (cases "fst (sdk_get_execution_role sdk w)") (simp_all add: nb)
  have c: "\<forall>role. fst (sdk_get_execution_role sdk w) = Inr role \<longrightarrow>
      length (filter is_TensorFlowCtor (trace (snd (profiling_notebook sdk w)))) = 1"
    using tf by (auto simp: nb)
  have d: "configured (globals (snd (run (take 4 (profiling_cells sdk)) (fresh pf_empty w))))"
    "trace (snd (run (take 4 (profiling_cells sdk)) (fresh pf_empty w))) = []"
    by (simp_all add: profiling_cells_def pf_cell_hyperparameters_def pf_cell_distributions_def
        pf_cell_rules_def pf_cell_profiler_config_def py_defs fresh_def configured_def)
  have e: "\<forall>c \<in> set (drop 1 (take 4 (profiling_cells sdk))). keeps pf_hyperparameters c"
    "\<forall>c \<in> set (take 1 (profiling_cells sdk) @ drop 2 (take 4 (profiling_cells sdk))).
      keeps pf_distributions c"
    "\<forall>c \<in> set (take 2 (profiling_cells sdk) @ drop 3 (take 4 (profiling_cells sdk))).
      keeps pf_rules c"
    "\<forall>c \<in> set (take 3 (profiling_cells sdk)). keeps pf_profiler_config c"
    unfolding profiling_cells_def pf_cell_hyperparameters_def pf_cell_distributions_def
      pf_cell_rules_def pf_cell_profiler_config_def
    by (simp_all add: keeps_assign)
  from a b c d e show ?thesis by blast
qed

section \<open>External errors are raised unchanged\<close>

lemma propagated_Inr [simp]: "propagated (Inr x) evs = (\<not> list_ex is_Raised evs)"
  by simp

lemma propagated_local:
  "(\<And>m. e \<noteq> SdkError m) \<Longrightarrow> propagated (Inl e) evs = (\<not> list_ex is_Raised evs)"
  by (cases e) auto

lemma propagated_Inl:
  "propagated (Inl e :: exn + 'a) evs = propagated (Inl e :: exn + 'b) evs"
  by (cases e) auto

lemma propagated_append:
  "\<not> list_ex is_Raised evs1 \<Longrightarrow> propagated r evs2 \<Longrightarrow> propagated r (evs1 @ evs2)"
proof (cases r)
  case (Inl e)
  assume a: "\<not> list_ex is_Raised evs1" "propagated r evs2"
  show ?thesis
  proof (cases e)
    case (SdkError msg)
    with a Inl obtain pre post where "evs2 = pre @ Raised msg # post"
      "\<not> list_ex is_Raised pre" "list_all is_CloseFile post" by auto
    with a(1) have "evs1 @ evs2 = (evs1 @ pre) @ Raised msg # post"
      "\<not> list_ex is_Raised (evs1 @ pre)" "list_all is_CloseFile post" by auto
    then show ?thesis unfolding Inl SdkError propagated.simps by blast
  qed (use a Inl in auto)
next
  case (Inr x)
  assume "\<not> list_ex is_Raised evs1" "propagated r evs2"
  with Inr show ?thesis by auto
qed

lemma propagated_close:
  "propagated r evs \<Longrightarrow> is_CloseFile ev \<Longrightarrow> propagated r (evs @ [ev])"
proof (cases r)
  case (Inl e)
  assume a: "propagated r evs" "is_CloseFile ev"
  then have nr: "\<not> is_Raised ev" by (cases ev) auto
  show ?thesis
  proof (cases e)
    case (SdkError msg)
    with a Inl obtain pre post where "evs = pre @ Raised msg # post"
      "\<not> list_ex is_Raised pre" "list_all is_CloseFile post" by auto
    with a(2) have "evs @ [ev] = pre @ Raised msg # (post @ [ev])"
      "\<not> list_ex is_Raised pre" "list_all is_CloseFile (post @ [ev])" by auto
    then show ?thesis unfolding Inl SdkError propagated.simps by blast
  qed (use a Inl nr in auto)
next
  case (Inr x)
  assume a: "propagated r evs" "is_CloseFile ev"
  then have nr: "\<not> is_Raised ev" by (cases ev) auto
  with a Inr show ?thesis by auto
qed

lemma faithful_ret: "faithful (ret x)"
  by (simp add: faithful_def ret_def)

lemma faithful_raise: "(\<And>m. e \<noteq> SdkError m) \<Longrightarrow> faithful (raise e)"
  by (simp add: faithful_def raise_def propagated_local)

lemma faithful_name: "faithful (name x f)"
  by (simp add: faithful_def name_def split: option.splits)

lemma faithful_assign: "faithful (assign u)"
  by (simp add: faithful_def assign_def)

lemma faithful_emit: "\<not> is_Raised ev \<Longrightarrow> faithful (emit ev)"
  by (simp add: faithful_def emit_def)

lemma faithful_attr: "\<not> is_Raised ev \<Longrightarrow> faithful (attr ev f)"
  by (simp add: faithful_def attr_def)

lemma faithful_effect: "\<not> is_Raised ev \<Longrightarrow> faithful (effect ev f)"
  by (simp add: faithful_def effect_def)

lemma faithful_call:
  assumes "\<not> is_Raised ev"
  shows "faithful (call ev f)"
  unfolding faithful_def
proof
  fix k
  show "\<exists>evs. trace (snd (call ev f k)) = trace k @ evs \<and> propagated (fst (call ev f k)) evs"
  proof (cases "f (world k)")
    case (Pair r w')
    show ?thesis
    proof (cases r)
      case (Inl msg)
      have "[ev, Raised msg] = [ev] @ Raised msg # [] \<and> \<not> list_ex is_Raised [ev] \<and>
          list_all is_CloseFile []"
        using assms by simp
      then have "propagated (Inl (SdkError msg) :: exn + 'a) [ev, Raised msg]"
        unfolding propagated.simps by blast
      with Pair Inl show ?thesis by (simp add: call_def)
    next
      case (Inr x)
      with Pair assms show ?thesis by (simp add: call_def)
    qed
  qed
qed

lemma faithful_seq:
  fixes m :: "('g, 'w, 'a) py" and f :: "'a \<Rightarrow> ('g, 'w, 'b) py"
  assumes "faithful m" and "\<And>x. faithful (f x)"
  shows "faithful (seq m f)"
  unfolding faithful_def
proof
  fix k
  from assms(1) obtain evs where
    1: "trace (snd (m k)) = trace k @ evs" "propagated (fst (m k)) evs"
    unfolding faithful_def by blast
  show "\<exists>evs. trace (snd (seq m f k)) = trace k @ evs \<and> propagated (fst (seq m f k)) evs"
  proof (cases "m k")
    case (Pair r k1)
    show ?thesis
    proof (cases r)
      case (Inl e)
      with Pair 1 have p: "propagated (Inl e :: exn + 'a) evs" by simp
      have q: "propagated (Inl e :: exn + 'b) evs"
        using p propagated_Inl[where ?'a = 'a and ?'b = 'b, of e evs] by blast
      from Pair Inl 1 have "trace (snd (seq m f k)) = trace k @ evs"
        "fst (seq m f k) = Inl e"
        by (simp_all add: seq_def)
      with q show ?thesis by metis
    next
      case (Inr x)
      from assms(2)[of x] obtain evs2 where
        2: "trace (snd (f x k1)) = trace k1 @ evs2" "propagated (fst (f x k1)) evs2"
        unfolding faithful_def by blast
      from 1 Pair Inr have nr: "\<not> list_ex is_Raised evs" by simp
      from Pair Inr 1 2 have "trace (snd (seq m f k)) = trace k @ (evs @ evs2)"
        by (simp add: seq_def)
      moreover from Pair Inr have "fst (seq m f k) = fst (f x k1)" by (simp add: seq_def)
      ultimately show ?thesis using propagated_append[OF nr 2(2)] by metis
    qed
  qed
qed

lemma faithful_run_Nil: "faithful (run [])"
  by (simp add: faithful_ret)

lemma faithful_run_Cons: "faithful c \<Longrightarrow> faithful (run cs) \<Longrightarrow> faithful (run (c # cs))"
  by (simp add: faithful_seq)

lemma faithful_with_exit:
  assumes "faithful m" and "is_CloseFile ev"
  shows "faithful (with_exit m (effect ev f))"
  unfolding faithful_def
proof
  fix k
  from assms(1) obtain evs where
    1: "trace (snd (m k)) = trace k @ evs" "propagated (fst (m k)) evs"
    unfolding faithful_def by blast
  have "trace (snd (with_exit m (effect ev f) k)) = trace k @ (evs @ [ev])"
    "fst (with_exit m (effect ev f) k) = fst (m k)"
    using 1 by (auto simp: with_exit_def effect_def split: prod.splits)
  with propagated_close[OF 1(2) assms(2)]
  show "\<exists>evs. trace (snd (with_exit m (effect ev f) k)) = trace k @ evs \<and>
      propagated (fst (with_exit m (effect ev f) k)) evs"
    by metis
qed

lemma faithful_case_sum:
  "(\<And>e. s = Inl e \<Longrightarrow> faithful (a e)) \<Longrightarrow> (\<And>v. s = Inr v \<Longrightarrow> faithful (b v)) \<Longrightarrow>
   faithful (case s of Inl e \<Rightarrow> a e | Inr v \<Rightarrow> b v)"
  by (cases s) auto

lemma faithful_case_option:
  "(s = None \<Longrightarrow> faithful a) \<Longrightarrow> (\<And>v. s = Some v \<Longrightarrow> faithful (b v)) \<Longrightarrow>
   faithful (case s of None \<Rightarrow> a | Some v \<Rightarrow> b v)"
  by (cases s) auto

lemmas faithful_intros = faithful_ret faithful_raise faithful_name faithful_assign faithful_emit
  faithful_attr faithful_effect faithful_call faithful_seq faithful_run_Nil faithful_run_Cons
  faithful_with_exit faithful_case_sum faithful_case_option

lemma tc_comprehension_local: "tc_comprehension ms = Inl e \<Longrightarrow> e \<noteq> SdkError m"
  by (induction ms) (auto simp: py_getitem_def py_str_in_def split: sum.splits json.splits option.splits)

lemma tc_models_all_versions_local: "tc_models_all_versions ml = Inl e \<Longrightarrow> e \<noteq> SdkError m"
  by (auto simp: tc_models_all_versions_def py_iter_def tc_comprehension_local
      split: sum.splits json.splits)

lemma rule_output_path_local: "rule_output_path p j = Inl e \<Longrightarrow> e \<noteq> SdkError m"
  by (auto simp: rule_output_path_def split: option.splits)

lemma predict_loop_faithful: "faithful (predict_loop sdk ts)"
  by (induction ts) (simp add: faithful_ret, simp, intro faithful_intros, simp_all)

lemma jumpstart_cells_faithful: "\<forall>c \<in> set (jumpstart_cells sdk). faithful c"
  unfolding jumpstart_cells_def js_cells
  by (simp; intro conjI faithful_intros predict_loop_faithful;
      simp add: tc_models_all_versions_local)

lemma profiling_cells_faithful: "\<forall>c \<in> set (profiling_cells sdk). faithful c"
  unfolding profiling_cells_def pf_cells
  by (simp; intro conjI faithful_intros; simp add: rule_output_path_local)

lemma faithful_run: "\<forall>c \<in> set cs. faithful c \<Longrightarrow> faithful (run cs)"
  by (induction cs) (simp_all add: faithful_ret faithful_seq)

lemma propagated_iff:
  assumes "propagated r evs"
  shows "r = Inl (SdkError msg) \<longleftrightarrow> Raised msg \<in> set evs"
proof (cases r)
  case (Inl e)
  show ?thesis
  proof (cases e)
    case (SdkError m')
    with assms Inl obtain pre post where evs: "evs = pre @ Raised m' # post"
      and pre: "\<not> list_ex is_Raised pre" and post: "list_all is_CloseFile post" by auto
    have "Raised msg \<notin> set pre" using pre by (auto simp: list_ex_iff)
    moreover have "Raised msg \<notin> set post" using post by (auto simp: list_all_iff)
    ultimately show ?thesis by (auto simp: Inl SdkError evs)
  qed (use assms Inl in \<open>auto simp: list_ex_iff\<close>)
next
  case (Inr x)
  with assms show ?thesis by (auto simp: list_ex_iff)
qed

section \<open>The model selection and the inference steps\<close>

lemma select_success:
  assumes "js_aws_region (globals k) = Some region"
    and "js_model_id (globals k) = Some mid"
    and "sdk_boto3_client sdk ''s3'' (world k) = (Inr c, w1)"
    and "sdk_download_file sdk c (''jumpstart-cache-prod-'' @ py_format region)
           ''models_manifest.json'' ''models_manifest.json'' w1 = (Inr (), w2)"
    and "sdk_open sdk ''models_manifest.json'' ''rb'' w2 = (Inr f, w3)"
    and "sdk_json_load sdk f w3 = (Inr ml, w4)"
    and "tc_models_all_versions ml = Inr av"
    and "sdk_Dropdown sdk
           \<lparr>dd_value = mid, dd_options = tc_models av,
              dd_description = ''JumpStart Text Classification Models:'',
              dd_style = [(''description_width'', ''initial'')],
              dd_layout = [(''width'', ''max-content'')]\<rparr> (sdk_close sdk f w4) = (Inr d, w5)"
  shows "fst (js_cell_select sdk k) = Inr () \<and>
         trace (snd (js_cell_select sdk k)) = trace k @
           [Boto3Client ''s3'',
            DownloadFile c (''jumpstart-cache-prod-'' @ py_format region)
              ''models_manifest.json'' ''models_manifest.json'',
            OpenFile ''models_manifest.json'' ''rb'', JsonLoad f, CloseFile f,
            DropdownCtor \<lparr>dd_value = mid, dd_options = tc_models av,
              dd_description = ''JumpStart Text Classification Models:'',
              dd_style = [(''description_width'', ''initial'')],
              dd_layout = [(''width'', ''max-content'')]\<rparr>,
            DisplayMarkdown ''## Select a JumpStart pre-trained model from the dropdown below'',
            DisplayWidget d] \<and>
         js_model_list (globals (snd (js_cell_select sdk k))) = Some ml \<and>
         js_tc_models_all_versions (globals (snd (js_cell_select sdk k))) = Some av \<and>
         js_tc_models (globals (snd (js_cell_select sdk k))) = Some (tc_models av) \<and>
         js_dropdown (globals (snd (js_cell_select sdk k))) = Some d"
  using assms
  by (simp add: js_cell_select_def py_defs tc_models_def)

lemma predict_success:
  assumes "js_predictor (globals k) = Some p"
    and "js_text1 (globals k) = Some a" and "js_text2 (globals k) = Some b"
    and "sdk_predict sdk p a (world k) = (Inr r1, w1)"
    and "sdk_predict sdk p b w1 = (Inr r2, w2)"
  shows "fst (js_cell_predict sdk k) = Inr () \<and>
         trace (snd (js_cell_predict sdk k)) =
           trace k @ [Predict p a, PrintValue r1, Predict p b, PrintValue r2] \<and>
         js_query_response (globals (snd (js_cell_predict sdk k))) = Some r2"
  using assms
  by (simp add: js_cell_predict_def py_defs)

section \<open>Runs of the two notebooks\<close>

text \<open>
  Claim C4. Whatever the external calls answer, the endpoint events of a run of the
  JumpStart notebook are a prefix of: deploy, predict on \<^verbatim>\<open>text1\<close>, predict on \<^verbatim>\<open>text2\<close>,
  delete, all on the predictor that deploy returned; a run that ends without error has
  all four; and after a \<^verbatim>\<open>delete_predictor\<close> event the trace holds nothing but the marker of
  the error this very call raised, if it raised.
\<close>

theorem jumpstart_endpoint_lifecycle:
  "\<exists>e p. prefix (filter endpoint_event (trace (snd (jumpstart_notebook sdk w))))
            [Deploy e, Predict p text1, Predict p text2, DeletePredictor p] \<and>
          (fst (jumpstart_notebook sdk w) = Inr () \<longrightarrow>
             filter endpoint_event (trace (snd (jumpstart_notebook sdk w))) =
               [Deploy e, Predict p text1, Predict p text2, DeletePredictor p]) \<and>
          (\<forall>q pre post. trace (snd (jumpstart_notebook sdk w)) = pre @ DeletePredictor q # post \<longrightarrow>
             post = [] \<or> (\<exists>m. post = [Raised m]))"
proof -
  obtain r k' where nb: "jumpstart_notebook sdk w = (r, k')"
    by (cases "jumpstart_notebook sdk w")
  from endpoint_order_run[OF nb] show ?thesis
    unfolding endpoint_order_def by (simp add: nb)
qed

lemma jumpstart_ok:
  "jumpstart_notebook (sdk_ok manifest_ok) () =
     (Inr (),
      \<lparr>globals =
         \<lparr>js_aws_role = Some ''arn:aws:iam::1:role/demo'', js_aws_region = Some (Some ''us-west-2''),
          js_sess = Some 2, js_model_id = Some (JStr model_id), js_json_file = Some 4,
          js_model_list = Some manifest_ok,
          js_tc_models_all_versions = Some [JStr model_id, JStr model_id],
          js_tc_models = Some [JStr model_id], js_dropdown = Some 5,
          js_training_data_bucket = Some ''jumpstart-cache-prod-us-west-2'',
          js_training_data_prefix = Some ''training-datasets/SST/'',
          js_training_dataset_s3_path =
            Some ''s3://jumpstart-cache-prod-us-west-2/training-datasets/SST/'',
          js_estimator = Some 6, js_predictor = Some 7, js_text1 = Some text1,
          js_text2 = Some text2, js_text = Some text2,
          js_query_response = Some (JObj [(''probabilities'', JArr [])])\<rparr>,
       world = (),
       trace =
         [Shell ''pip install sagemaker ipywidgets --upgrade --quiet'', GetExecutionRole,
          Boto3Session, RegionName 1, SagemakerSession, Boto3Client ''s3'',
          DownloadFile 3 ''jumpstart-cache-prod-us-west-2'' ''models_manifest.json''
            ''models_manifest.json'',
          OpenFile ''models_manifest.json'' ''rb'', JsonLoad 4, CloseFile 4,
          DropdownCtor \<lparr>dd_value = JStr model_id, dd_options = [JStr model_id],
            dd_description = ''JumpStart Text Classification Models:'',
            dd_style = [(''description_width'', ''initial'')],
            dd_layout = [(''width'', ''max-content'')]\<rparr>,
          DisplayMarkdown ''## Select a JumpStart pre-trained model from the dropdown below'',
          DisplayWidget 5, DropdownValue 5, GetJumpstartContentBucket,
          JumpStartEstimatorCtor (JStr model_id) [(''epochs'', ''1''), (''batch_size'', ''64'')],
          Fit 6 \<lparr>fit_inputs =
                   Some [(''training'', ''s3://jumpstart-cache-prod-us-west-2/training-datasets/SST/'')],
                 fit_wait = None, fit_logs = Some True\<rparr>,
          Deploy 6, Predict 7 text1, PrintValue (JObj [(''probabilities'', JArr [])]),
          Predict 7 text2, PrintValue (JObj [(''probabilities'', JArr [])]),
          DeletePredictor 7]\<rparr>)"
  by (simp add: jumpstart_notebook_def jumpstart_cells_def fresh_def js_empty_def py_defs js_cells
      sdk_ok_def tav_ok py_in_list_def py_format_def)

theorem jumpstart_endpoint_lifecycle_witness:
  "fst (jumpstart_notebook (sdk_ok manifest_ok) ()) = Inr () \<and>
   filter endpoint_event (trace (snd (jumpstart_notebook (sdk_ok manifest_ok) ()))) =
     [Deploy 6, Predict 7 text1, Predict 7 text2, DeletePredictor 7]"
  using jumpstart_endpoint_lifecycle[of "sdk_ok manifest_ok" "()"]
  by (simp add: jumpstart_ok)

lemma profiling_ok:
  "profiling_notebook (sdk_ok manifest_ok) () =
     (Inl (NameError ''system_metrics_reader''),
      \<lparr>globals =
         \<lparr>pf_hyperparameters = Some hyperparameters, pf_distributions = Some distributions,
          pf_rules = Some rules, pf_profiler_config = Some profiler_config,
          pf_estimator = Some 8, pf_session = Some 1, pf_region = Some (Some ''us-west-2''),
          pf_training_job_name = Some ''tensorflow-training-2021'', pf_tj = Some 9,
          pf_system_metrics_reader = None, pf_view_timeline_charts = None,
          pf_rule_output_path = None\<rparr>,
       world = (),
       trace =
         [GetExecutionRole,
          TensorFlowCtor (tensorflow_args ''arn:aws:iam::1:role/demo'' profiler_config
            hyperparameters distributions rules),
          Fit 8 fit_wait_False, Boto3Session, RegionName 1, LatestTrainingJob 8,
          Print ''Training jobname: tensorflow-training-2021'', Print ''Region: us-west-2'',
          TrainingJobCtor ''tensorflow-training-2021'' (Some ''us-west-2''),
          WaitForSysProfilingData 9]\<rparr>)"
  by (simp add: profiling_notebook_def profiling_cells_def fresh_def pf_empty_def py_defs pf_cells
      sdk_ok_def py_format_def)

theorem profiling_steps_order_witness:
  "trace (snd (profiling_notebook (sdk_ok manifest_ok) ())) =
     [GetExecutionRole,
      TensorFlowCtor (tensorflow_args ''arn:aws:iam::1:role/demo'' profiler_config
        hyperparameters distributions rules)] @
     Fit 8 fit_wait_False #
     [Boto3Session, RegionName 1, LatestTrainingJob 8,
      Print ''Training jobname: tensorflow-training-2021'', Print ''Region: us-west-2'',
      TrainingJobCtor ''tensorflow-training-2021'' (Some ''us-west-2''),
      WaitForSysProfilingData 9] \<and>
   fit_wait fit_wait_False = Some False \<and>
   list_all job_query_or_poll
     [Boto3Session, RegionName 1, LatestTrainingJob 8,
      Print ''Training jobname: tensorflow-training-2021'', Print ''Region: us-west-2'',
      TrainingJobCtor ''tensorflow-training-2021'' (Some ''us-west-2''),
      WaitForSysProfilingData 9] \<and>
   emits job_query_or_poll (pf_cell_rule_output (sdk_ok manifest_ok))"
  using profiling_steps_order[of "sdk_ok manifest_ok" "()"]
  by (simp add: profiling_ok profiling_cells_def fit_wait_False_def)

theorem configs_constructed_once_sent_once_witness:
  "TensorFlowCtor (tensorflow_args ''arn:aws:iam::1:role/demo'' profiler_config
        hyperparameters distributions rules)
     \<in> set (trace (snd (profiling_notebook (sdk_ok manifest_ok) ()))) \<and>
   tf_hyperparameters (tensorflow_args ''arn:aws:iam::1:role/demo'' profiler_config
        hyperparameters distributions rules) =
     [(''epoch'', JInt 5), (''batch_size'', JInt 64), (''data_augmentation'', JBool True)] \<and>
   fst (sdk_get_execution_role (sdk_ok manifest_ok) ()) = Inr ''arn:aws:iam::1:role/demo'' \<and>
   length (filter is_TensorFlowCtor (trace (snd (profiling_notebook (sdk_ok manifest_ok) ())))) = 1 \<and>
   keeps pf_hyperparameters (pf_cell_profiler_config (sdk_ok manifest_ok))"
proof -
  have role: "fst (sdk_get_execution_role (sdk_ok manifest_ok) ()) = Inr ''arn:aws:iam::1:role/demo''"
    by (simp add: sdk_ok_def)
  from configs_constructed_once_sent_once[of "sdk_ok manifest_ok" "()"] role show ?thesis
    by (simp add: profiling_ok profiling_cells_def hyperparameters_def tensorflow_args_def)
qed

lemma single_call_cells:
  "js_model_id (globals k) = Some mid \<Longrightarrow>
     passes_through (js_cell_estimator sdk)
       (JumpStartEstimatorCtor mid [(''epochs'', ''1''), (''batch_size'', ''64'')])
       (sdk_JumpStartEstimator sdk mid [(''epochs'', ''1''), (''batch_size'', ''64'')])
       (\<lambda>e. js_estimator_update (\<lambda>_. Some e)) k"
  "js_estimator (globals k) = Some e \<Longrightarrow> js_training_dataset_s3_path (globals k) = Some path \<Longrightarrow>
     passes_through (js_cell_fit sdk)
       (Fit e \<lparr>fit_inputs = Some [(''training'', path)], fit_wait = None, fit_logs = Some True\<rparr>)
       (sdk_fit sdk e \<lparr>fit_inputs = Some [(''training'', path)], fit_wait = None, fit_logs = Some True\<rparr>)
       (\<lambda>_ g. g) k"
  "js_estimator (globals k) = Some e \<Longrightarrow>
     passes_through (js_cell_deploy sdk) (Deploy e) (sdk_deploy sdk e)
       (\<lambda>p. js_predictor_update (\<lambda>_. Some p)) k"
  "js_predictor (globals k) = Some p \<Longrightarrow>
     passes_through (js_cell_delete sdk) (DeletePredictor p) (sdk_delete_predictor sdk p)
       (\<lambda>_ g. g) k"
  "pf_estimator (globals kp) = Some e \<Longrightarrow>
     passes_through (pf_cell_fit sdk) (Fit e fit_wait_False) (sdk_fit sdk e fit_wait_False)
       (\<lambda>_ g. g) kp"
  by (simp_all add: passes_through_def js_cell_estimator_def js_cell_fit_def js_cell_deploy_def
      js_cell_delete_def pf_cell_fit_def py_defs split: prod.splits sum.splits)

text \<open>
  Claim C2, as amended. The steps that consist of one external call (constructing the
  JumpStart estimator, both \<^verbatim>\<open>fit\<close> calls, \<^verbatim>\<open>deploy\<close>, \<^verbatim>\<open>delete_predictor\<close>) return exactly
  the outcome of that call: its error, or its result bound unchanged. The inference step
  calls \<^verbatim>\<open>predict\<close> once for each of the two sentences and prints each response as
  received. The model selection step issues five external calls in program order and
  offers in the dropdown not the manifest it loaded but the list it computes from it
  locally, by filtering and removing duplicates.
\<close>

theorem steps_pass_results_through:
  "(js_model_id (globals k) = Some mid \<longrightarrow>
      passes_through (js_cell_estimator sdk)
        (JumpStartEstimatorCtor mid [(''epochs'', ''1''), (''batch_size'', ''64'')])
        (sdk_JumpStartEstimator sdk mid [(''epochs'', ''1''), (''batch_size'', ''64'')])
        (\<lambda>e. js_estimator_update (\<lambda>_. Some e)) k) \<and>
   (js_estimator (globals k) = Some e \<and> js_training_dataset_s3_path (globals k) = Some path \<longrightarrow>
      passes_through (js_cell_fit sdk)
        (Fit e \<lparr>fit_inputs = Some [(''training'', path)], fit_wait = None, fit_logs = Some True\<rparr>)
        (sdk_fit sdk e \<lparr>fit_inputs = Some [(''training'', path)], fit_wait = None, fit_logs = Some True\<rparr>)
        (\<lambda>_ g. g) k) \<and>
   (js_estimator (globals k) = Some e \<longrightarrow>
      passes_through (js_cell_deploy sdk) (Deploy e) (sdk_deploy sdk e)
        (\<lambda>p. js_predictor_update (\<lambda>_. Some p)) k) \<and>
   (js_predictor (globals k) = Some p \<longrightarrow>
      passes_through (js_cell_delete sdk) (DeletePredictor p) (sdk_delete_predictor sdk p)
        (\<lambda>_ g. g) k) \<and>
   (pf_estimator (globals kp) = Some e \<longrightarrow>
      passes_through (pf_cell_fit sdk) (Fit e fit_wait_False) (sdk_fit sdk e fit_wait_False)
        (\<lambda>_ g. g) kp) \<and>
   (js_predictor (globals k) = Some p \<and> js_text1 (globals k) = Some a \<and>
    js_text2 (globals k) = Some b \<and> sdk_predict sdk p a (world k) = (Inr r1, v1) \<and>
    sdk_predict sdk p b v1 = (Inr r2, v2) \<longrightarrow>
      fst (js_cell_predict sdk k) = Inr () \<and>
      trace (snd (js_cell_predict sdk k)) =
        trace k @ [Predict p a, PrintValue r1, Predict p b, PrintValue r2] \<and>
      js_query_response (globals (snd (js_cell_predict sdk k))) = Some r2) \<and>
   (js_aws_region (globals k) = Some region \<and> js_model_id (globals k) = Some mid \<and>
    sdk_boto3_client sdk ''s3'' (world k) = (Inr c, w1) \<and>
    sdk_download_file sdk c (''jumpstart-cache-prod-'' @ py_format region)
      ''models_manifest.json'' ''models_manifest.json'' w1 = (Inr (), w2) \<and>
    sdk_open sdk ''models_manifest.json'' ''rb'' w2 = (Inr f, w3) \<and>
    sdk_json_load sdk f w3 = (Inr ml, w4) \<and>
    tc_models_all_versions ml = Inr av \<and>
    sdk_Dropdown sdk
      \<lparr>dd_value = mid, dd_options = tc_models av,
         dd_description = ''JumpStart Text Classification Models:'',
         dd_style = [(''description_width'', ''initial'')],
         dd_layout = [(''width'', ''max-content'')]\<rparr> (sdk_close sdk f w4) = (Inr d, w5) \<longrightarrow>
      fst (js_cell_select sdk k) = Inr () \<and>
      trace (snd (js_cell_select sdk k)) = trace k @
        [Boto3Client ''s3'',
         DownloadFile c (''jumpstart-cache-prod-'' @ py_format region)
           ''models_manifest.json'' ''models_manifest.json'',
         OpenFile ''models_manifest.json'' ''rb'', JsonLoad f, CloseFile f,
         DropdownCtor \<lparr>dd_value = mid, dd_options = tc_models av,
           dd_description = ''JumpStart Text Classification Models:'',
           dd_style = [(''description_width'', ''initial'')],
           dd_layout = [(''width'', ''max-content'')]\<rparr>,
         DisplayMarkdown ''## Select a JumpStart pre-trained model from the dropdown below'',
         DisplayWidget d] \<and>
      js_model_list (globals (snd (js_cell_select sdk k))) = Some ml \<and>
      js_tc_models_all_versions (globals (snd (js_cell_select sdk k))) = Some av \<and>
      js_tc_models (globals (snd (js_cell_select sdk k))) = Some (tc_models av) \<and>
      js_dropdown (globals (snd (js_cell_select sdk k))) = Some d)"
  apply (intro conjI)
        apply (intro impI, rule single_call_cells(1); assumption)
       apply (intro impI, elim conjE, rule single_call_cells(2); assumption)
      apply (intro impI, rule single_call_cells(3); assumption)
     apply (intro impI, rule single_call_cells(4); assumption)
    apply (intro impI, rule single_call_cells(5); assumption)
   apply (intro impI, elim conjE, rule predict_success; assumption)
  apply (intro impI, elim conjE, rule select_success; assumption)
  done

lemma select_ok:
  "js_cell_select (sdk_ok manifest_ok) js_selecting =
     (Inr (),
      \<lparr>globals = js_empty\<lparr>js_aws_region := Some (Some ''us-west-2''),
           js_model_id := Some (JStr model_id), js_json_file := Some 4,
           js_model_list := Some manifest_ok,
           js_tc_models_all_versions := Some [JStr model_id, JStr model_id],
           js_tc_models := Some [JStr model_id], js_dropdown := Some 5\<rparr>,
       world = (),
       trace =
         [Boto3Client ''s3'',
          DownloadFile 3 ''jumpstart-cache-prod-us-west-2'' ''models_manifest.json''
            ''models_manifest.json'',
          OpenFile ''models_manifest.json'' ''rb'', JsonLoad 4, CloseFile 4,
          DropdownCtor \<lparr>dd_value = JStr model_id, dd_options = [JStr model_id],
            dd_description = ''JumpStart Text Classification Models:'',
            dd_style = [(''description_width'', ''initial'')],
            dd_layout = [(''width'', ''max-content'')]\<rparr>,
          DisplayMarkdown ''## Select a JumpStart pre-trained model from the dropdown below'',
          DisplayWidget 5]\<rparr>)"
  by (simp add: js_selecting_def fresh_def js_empty_def js_cell_select_def py_defs sdk_ok_def
      tav_ok py_in_list_def py_format_def)

theorem model_selection_not_pass_through:
  "fst (js_cell_select (sdk_ok manifest_ok) js_selecting) = Inr () \<and>
   sdk_json_load (sdk_ok manifest_ok) 4 () = (Inr manifest_ok, ()) \<and>
   js_model_list (globals (snd (js_cell_select (sdk_ok manifest_ok) js_selecting))) =
     Some manifest_ok \<and>
   js_tc_models (globals (snd (js_cell_select (sdk_ok manifest_ok) js_selecting))) =
     Some [JStr model_id] \<and>
   manifest_ok \<noteq> JArr [JStr model_id] \<and>
   length (filter (\<lambda>ev. ev \<in> {Boto3Client ''s3'', OpenFile ''models_manifest.json'' ''rb'',
       JsonLoad 4, DownloadFile 3 ''jumpstart-cache-prod-us-west-2'' ''models_manifest.json''
            ''models_manifest.json'',
       DropdownCtor \<lparr>dd_value = JStr model_id, dd_options = [JStr model_id],
            dd_description = ''JumpStart Text Classification Models:'',
            dd_style = [(''description_width'', ''initial'')],
            dd_layout = [(''width'', ''max-content'')]\<rparr>})
     (trace (snd (js_cell_select (sdk_ok manifest_ok) js_selecting)))) = 5"
  by (simp add: select_ok) (simp add: sdk_ok_def manifest_ok_def js_empty_def)

theorem steps_pass_results_through_witness:
  "passes_through (js_cell_deploy (sdk_ok manifest_ok)) (Deploy 6)
     (sdk_deploy (sdk_ok manifest_ok) 6) (\<lambda>p. js_predictor_update (\<lambda>_. Some p)) js_ready \<and>
   fst (js_cell_predict (sdk_ok manifest_ok) js_ready) = Inr () \<and>
   trace (snd (js_cell_predict (sdk_ok manifest_ok) js_ready)) =
     [Predict 7 text1, PrintValue (JObj [(''probabilities'', JArr [])]),
      Predict 7 text2, PrintValue (JObj [(''probabilities'', JArr [])])] \<and>
   js_tc_models (globals (snd (js_cell_select (sdk_ok manifest_ok) js_ready))) =
     Some (tc_models [JStr model_id, JStr model_id])"
proof -
  have g: "js_estimator (globals js_ready) = Some 6" "js_predictor (globals js_ready) = Some 7"
    "js_text1 (globals js_ready) = Some text1" "js_text2 (globals js_ready) = Some text2"
    "js_aws_region (globals js_ready) = Some (Some ''us-west-2'')"
    "js_model_id (globals js_ready) = Some (JStr model_id)"
    "world js_ready = ()" "trace js_ready = []"
    by (simp_all add: js_ready_def fresh_def js_empty_def)
  have s: "sdk_predict (sdk_ok manifest_ok) 7 text1 () = (Inr (JObj [(''probabilities'', JArr [])]), ())"
    "sdk_predict (sdk_ok manifest_ok) 7 text2 () = (Inr (JObj [(''probabilities'', JArr [])]), ())"
    "sdk_boto3_client (sdk_ok manifest_ok) ''s3'' () = (Inr 3, ())"
    "sdk_download_file (sdk_ok manifest_ok) 3 (''jumpstart-cache-prod-'' @ py_format (Some ''us-west-2''))
      ''models_manifest.json'' ''models_manifest.json'' () = (Inr (), ())"
    "sdk_open (sdk_ok manifest_ok) ''models_manifest.json'' ''rb'' () = (Inr 4, ())"
    "sdk_json_load (sdk_ok manifest_ok) 4 () = (Inr manifest_ok, ())"
    "sdk_Dropdown (sdk_ok manifest_ok)
      \<lparr>dd_value = JStr model_id, dd_options = tc_models [JStr model_id, JStr model_id],
         dd_description = ''JumpStart Text Classification Models:'',
         dd_style = [(''description_width'', ''initial'')],
         dd_layout = [(''width'', ''max-content'')]\<rparr> (sdk_close (sdk_ok manifest_ok) 4 ()) = (Inr 5, ())"
    by (simp_all add: sdk_ok_def tc_models_def py_in_list_def)
  from steps_pass_results_through[where k = js_ready and sdk = "sdk_ok manifest_ok" and e = 6
      and p = 7 and a = text1 and b = text2 and ?r1.0 = "JObj [(''probabilities'', JArr [])]"
      and ?r2.0 = "JObj [(''probabilities'', JArr [])]" and ?v1.0 = "()" and ?v2.0 = "()"
      and region = "Some ''us-west-2''" and mid = "JStr model_id" and c = 3 and ?w1.0 = "()"
      and ?w2.0 = "()" and f = 4 and ?w3.0 = "()" and ml = manifest_ok and ?w4.0 = "()"
      and av = "[JStr model_id, JStr model_id]" and d = 5 and ?w5.0 = "()"]
    g s tav_ok
  show ?thesis by simp
qed

text \<open>
  Claim C8, as amended. Every cell of the two notebooks, run from any state, raises the
  error of an external call unchanged: its result is that error exactly when the events
  it added hold the marker of this error, no external call follows the marker (only the
  closing of the manifest file by the \<^verbatim>\<open>with\<close> statement), and nothing is retried. The
  same holds for the runs of both notebooks. An error that is not an external one is
  raised by Python locally, with no external call failing.
\<close>

theorem external_errors_propagate:
  "(\<forall>c \<in> set (jumpstart_cells sdk). faithful c) \<and>
   (\<forall>c \<in> set (profiling_cells sdk). faithful c) \<and>
   propagated (fst (jumpstart_notebook sdk w)) (trace (snd (jumpstart_notebook sdk w))) \<and>
   propagated (fst (profiling_notebook sdk w)) (trace (snd (profiling_notebook sdk w))) \<and>
   (fst (jumpstart_notebook sdk w) = Inl (SdkError msg) \<longleftrightarrow>
      Raised msg \<in> set (trace (snd (jumpstart_notebook sdk w)))) \<and>
   (fst (profiling_notebook sdk w) = Inl (SdkError msg) \<longleftrightarrow>
      Raised msg \<in> set (trace (snd (profiling_notebook sdk w)))) \<and>
   (fst (call ev f k) = Inl (SdkError msg) \<longleftrightarrow> fst (f (world k)) = Inl msg)"
proof -
  have "faithful (run (jumpstart_cells sdk))"
    by (rule faithful_run) (rule jumpstart_cells_faithful)
  then obtain evs where "trace (snd (jumpstart_notebook sdk w)) = trace (fresh js_empty w) @ evs"
    "propagated (fst (jumpstart_notebook sdk w)) evs"
    unfolding faithful_def jumpstart_notebook_def by blast
  then have js: "propagated (fst (jumpstart_notebook sdk w)) (trace (snd (jumpstart_notebook sdk w)))"
    by (simp add: fresh_def)
  have "faithful (run (profiling_cells sdk))"
    by (rule faithful_run) (rule profiling_cells_faithful)
  then obtain evs' where "trace (snd (profiling_notebook sdk w)) = trace (fresh pf_empty w) @ evs'"
    "propagated (fst (profiling_notebook sdk w)) evs'"
    unfolding faithful_def profiling_notebook_def by blast
  then have pf: "propagated (fst (profiling_notebook sdk w)) (trace (snd (profiling_notebook sdk w)))"
    by (simp add: fresh_def)
  have c: "fst (call ev f k) = Inl (SdkError msg) \<longleftrightarrow> fst (f (world k)) = Inl msg"
    by (auto simp: call_def split: prod.splits sum.splits)
  from jumpstart_cells_faithful profiling_cells_faithful js pf propagated_iff[OF js]
    propagated_iff[OF pf] c
  show ?thesis by blast
qed

lemma jumpstart_fit_fails:
  "fst (jumpstart_notebook sdk_fit_fails ()) = Inl (SdkError ''ResourceLimitExceeded'')"
  by (simp add: jumpstart_notebook_def jumpstart_cells_def fresh_def js_empty_def py_defs js_cells
      sdk_ok_def sdk_fit_fails_def tav_ok py_in_list_def py_format_def)

theorem external_errors_propagate_witness:
  "fst (jumpstart_notebook sdk_fit_fails ()) = Inl (SdkError ''ResourceLimitExceeded'') \<and>
   Raised ''ResourceLimitExceeded'' \<in> set (trace (snd (jumpstart_notebook sdk_fit_fails ()))) \<and>
   faithful (js_cell_fit sdk_fit_fails)"
proof -
  have c: "js_cell_fit sdk_fit_fails \<in> set (jumpstart_cells sdk_fit_fails)"
    by (simp add: jumpstart_cells_def)
  from external_errors_propagate[where sdk = sdk_fit_fails and w = "()"
      and msg = "''ResourceLimitExceeded''" and ev = GetExecutionRole
      and f = "sdk_get_execution_role sdk_fit_fails" and k = js_selecting]
    jumpstart_fit_fails c
  show ?thesis by blast
qed

theorem local_error_without_external_failure:
  "fst (js_cell_select (sdk_ok manifest_bad) js_selecting) = Inl (KeyError ''model_id'') \<and>
   trace (snd (js_cell_select (sdk_ok manifest_bad) js_selecting)) =
     [Boto3Client ''s3'',
      DownloadFile 3 ''jumpstart-cache-prod-us-west-2'' ''models_manifest.json''
        ''models_manifest.json'',
      OpenFile ''models_manifest.json'' ''rb'', JsonLoad 4, CloseFile 4] \<and>
   filter is_Raised (trace (snd (js_cell_select (sdk_ok manifest_bad) js_selecting))) = [] \<and>
   sdk_json_load (sdk_ok manifest_bad) 4 () = (Inr manifest_bad, ())"
  by (simp add: js_selecting_def fresh_def js_empty_def js_cell_select_def py_defs sdk_ok_def
      manifest_bad_def tc_models_all_versions_def py_iter_def py_getitem_def py_format_def)

text \<open>
  Claim C10. The default model id contains \<^verbatim>\<open>-tc-\<close>. For a manifest of records carrying
  \<^verbatim>\<open>model_id\<close> strings, one of them the default, the default is among the dropdown options
  \<^verbatim>\<open>tc_models\<close>; and when the calls before it succeed and the widget constructor accepts a
  value that is among its options, the model selection cell, entered with the default
  model id, constructs the dropdown and ends without error.
\<close>

theorem default_model_selectable:
  assumes "map model_id_of ms = map Some ids" and "model_id \<in> set ids"
    and "js_aws_region (globals k) = Some region"
    and "js_model_id (globals k) = Some (JStr model_id)"
    and "sdk_boto3_client sdk ''s3'' (world k) = (Inr c, w1)"
    and "sdk_download_file sdk c (''jumpstart-cache-prod-'' @ py_format region)
           ''models_manifest.json'' ''models_manifest.json'' w1 = (Inr (), w2)"
    and "sdk_open sdk ''models_manifest.json'' ''rb'' w2 = (Inr f, w3)"
    and "sdk_json_load sdk f w3 = (Inr (JArr ms), w4)"
    and "\<And>a w. py_in_list (dd_value a) (dd_options a) \<Longrightarrow> \<exists>d w'. sdk_Dropdown sdk a w = (Inr d, w')"
  shows "str_contains ''-tc-'' model_id \<and>
         (\<exists>av. tc_models_all_versions (JArr ms) = Inr av \<and> JStr model_id \<in> set (tc_models av) \<and>
               py_in_list (JStr model_id) (tc_models av)) \<and>
         fst (js_cell_select sdk k) = Inr () \<and>
         (\<exists>d. js_dropdown (globals (snd (js_cell_select sdk k))) = Some d)"
proof -
  have tc: "str_contains ''-tc-'' model_id"
    by (simp add: model_id_def)
  let ?xs = "filter (str_contains ''-tc-'') ids"
  let ?av = "map JStr ?xs"
  have av: "tc_models_all_versions (JArr ms) = Inr ?av"
    by (rule tc_models_all_versions_strs[OF assms(1)])
  have "JStr model_id \<in> set ?av" using assms(2) tc by simp
  moreover have "set (tc_models ?av) = set ?av"
    by (simp only: tc_models_strs set_keep_first) simp
  ultimately have mem: "JStr model_id \<in> set (tc_models ?av)" by simp
  have "tc_models ?av = keep_first {} ?av" by (rule tc_models_strs)
  then have "py_in_list (JStr model_id) (tc_models ?av)"
    using mem by (simp add: py_in_list_JStr)
  note inl = this
  from assms(9)[of "\<lparr>dd_value = JStr model_id, dd_options = tc_models ?av,
         dd_description = ''JumpStart Text Classification Models:'',
         dd_style = [(''description_width'', ''initial'')],
         dd_layout = [(''width'', ''max-content'')]\<rparr>" "sdk_close sdk f w4"] inl
  obtain d w5 where dd: "sdk_Dropdown sdk \<lparr>dd_value = JStr model_id, dd_options = tc_models ?av,
         dd_description = ''JumpStart Text Classification Models:'',
         dd_style = [(''description_width'', ''initial'')],
         dd_layout = [(''width'', ''max-content'')]\<rparr> (sdk_close sdk f w4) = (Inr d, w5)"
    by auto
  from select_success[OF assms(3,4,5,6,7,8) av dd]
  have "fst (js_cell_select sdk k) = Inr ()"
    "js_dropdown (globals (snd (js_cell_select sdk k))) = Some d" by simp_all
  with tc av mem inl show ?thesis by blast
qed

theorem default_model_selectable_witness:
  "str_contains ''-tc-'' model_id \<and>
   fst (js_cell_select (sdk_ok manifest_ok) js_selecting) = Inr () \<and>
   js_dropdown (globals (snd (js_cell_select (sdk_ok manifest_ok) js_selecting))) = Some 5"
proof -
  have m: "map model_id_of
      [JObj [(''model_id'', JStr model_id), (''version'', JStr ''1.0.0'')],
       JObj [(''model_id'', JStr ''pytorch-ic-mobilenet-v2''), (''version'', JStr ''1.0.0'')],
       JObj [(''model_id'', JStr model_id), (''version'', JStr ''2.0.0'')]] =
     map Some [model_id, ''pytorch-ic-mobilenet-v2'', model_id]"
    "model_id \<in> set [model_id, ''pytorch-ic-mobilenet-v2'', model_id]"
    by simp_all
  have g: "js_aws_region (globals js_selecting) = Some (Some ''us-west-2'')"
    "js_model_id (globals js_selecting) = Some (JStr model_id)"
    by (simp_all add: js_selecting_def fresh_def js_empty_def)
  have s: "sdk_boto3_client (sdk_ok manifest_ok) ''s3'' (world js_selecting) = (Inr 3, ())"
    "sdk_download_file (sdk_ok manifest_ok) 3 (''jumpstart-cache-prod-'' @ py_format (Some ''us-west-2''))
      ''models_manifest.json'' ''models_manifest.json'' () = (Inr (), ())"
    "sdk_open (sdk_ok manifest_ok) ''models_manifest.json'' ''rb'' () = (Inr 4, ())"
    "sdk_json_load (sdk_ok manifest_ok) 4 () = (Inr (JArr
      [JObj [(''model_id'', JStr model_id), (''version'', JStr ''1.0.0'')],
       JObj [(''model_id'', JStr ''pytorch-ic-mobilenet-v2''), (''version'', JStr ''1.0.0'')],
       JObj [(''model_id'', JStr model_id), (''version'', JStr ''2.0.0'')]]), ())"
    by (simp_all add: sdk_ok_def manifest_ok_def)
  have c: "\<exists>d w'. sdk_Dropdown (sdk_ok manifest_ok) a w = (Inr d, w')"
    if "py_in_list (dd_value a) (dd_options a)" for a w
    using that by (simp add: sdk_ok_def)
  from default_model_selectable[OF m g s c] show ?thesis
    by (simp add: select_ok)
qed

end
